theory Spec2Isabelle
  imports Main "HOL-Library.AList"
begin

section \<open>Tiles and constraints\<close>

text \<open>
  The tile and constraint types of namespace \<open>kodu\<close>. An optional field (\<open>f?: T\<close>) is
  a field of type \<open>T option\<close>, with \<open>None\<close> for a field that is absent (\<open>undefined\<close>).
\<close>

datatype TileType = SENSOR | FILTER | ACTUATOR | MODIFIER

text \<open>A value of a \<open>handling\<close> entry: \<open>string | number | boolean\<close>. The numbers of the
  catalog are small integer literals.\<close>

datatype hval = HStr string | HNum int | HBool bool

text \<open>The anonymous type \<open>{ tiles?: string[]; categories?: string[] }\<close> of \<open>allow\<close> and
  \<open>disallow\<close>.\<close>

record TileList =
  tiles :: "string list option"
  categories :: "string list option"

text \<open>\<open>handling\<close> is an object used as a dictionary; it is held as the list of its own
  properties in insertion order, with distinct keys.\<close>

record Constraints =
  provides :: "string list option"
  requires :: "string list option"
  allow :: "TileList option"
  disallow :: "TileList option"
  handling :: "(string \<times> hval) list option"

text \<open>\<open>TileDefn\<close> with the fields of its four variants: \<open>phase\<close> is present on a sensor,
  \<open>priority\<close> on a filter and on a modifier. Weights are the integer literals of the
  catalog.\<close>

record TileDefn =
  type :: TileType
  tid :: string
  name :: string
  weight :: "int option"
  hidden :: "bool option"
  category :: "string option"
  constraints :: "Constraints option"
  phase :: "string option"
  priority :: "int option"

section \<open>Rules, pages and brains\<close>

definition RuleCondition_DEFAULT :: string where
  "RuleCondition_DEFAULT = ''RC0''"

text \<open>
  A rule. \<open>sensor\<close> and \<open>actuator\<close> are \<open>undefined\<close> (\<open>None\<close>) until assigned. The
  elements of \<open>filters\<close> and \<open>modifiers\<close> are tile references; decoding an unknown
  identifier stores \<open>undefined\<close> in the array, so an element is a \<open>TileDefn option\<close>.
\<close>

record RuleDefn =
  condition :: string
  sensor :: "TileDefn option"
  filters :: "TileDefn option list"
  actuator :: "TileDefn option"
  modifiers :: "TileDefn option list"

text \<open>The constructor of \<open>RuleDefn\<close>.\<close>

definition RuleDefn_new :: RuleDefn where
  "RuleDefn_new =
     \<lparr>condition = RuleCondition_DEFAULT, sensor = None, filters = [],
      actuator = None, modifiers = []\<rparr>"

text \<open>\<open>Language.ensureValid\<close> mutates the rule in place; the model returns the rule
  after the call.\<close>

definition ensureValid :: "RuleDefn \<Rightarrow> RuleDefn" where
  "ensureValid rule =
     (let rule1 = (if sensor rule = None then rule\<lparr>filters := []\<rparr> else rule)
      in (if actuator rule1 = None then rule1\<lparr>modifiers := []\<rparr> else rule1))"

section \<open>Constraint accumulation\<close>

datatype error = TypeError | SyntaxError

text \<open>
  The accumulator that \<open>mkConstraints\<close> builds and \<open>mergeConstraints\<close> extends has the
  TypeScript type \<open>Constraints\<close>, but every field of it is present from its creation
  on, and the suggestion engine reads no other value of that type at this place. It is
  a record of its own, with no optional field.
\<close>

record AccTileList =
  acc_tiles :: "string list"
  acc_categories :: "string list"

record AccConstraints =
  acc_provides :: "string list"
  acc_requires :: "string list"
  acc_allow :: AccTileList
  acc_disallow :: AccTileList
  acc_handling :: "(string \<times> hval) list"

definition mkConstraints :: AccConstraints where
  "mkConstraints =
     \<lparr>acc_provides = [], acc_requires = [],
      acc_allow = \<lparr>acc_tiles = [], acc_categories = []\<rparr>,
      acc_disallow = \<lparr>acc_tiles = [], acc_categories = []\<rparr>,
      acc_handling = []\<rparr>"

text \<open>\<open>xs || []\<close> and \<open>if (xs) xs.forEach(item => dst.push(item))\<close>: an array is
  truthy, so only an absent one contributes nothing.\<close>

definition orEmpty :: "string list option \<Rightarrow> string list" where
  "orEmpty xs = (case xs of None \<Rightarrow> [] | Some ys \<Rightarrow> ys)"

definition mergeTileList :: "AccTileList \<Rightarrow> TileList option \<Rightarrow> AccTileList" where
  "mergeTileList dst src =
     (case src of
        None \<Rightarrow> dst
      | Some s \<Rightarrow>
          \<lparr>acc_tiles = acc_tiles dst @ orEmpty (tiles s),
           acc_categories = acc_categories dst @ orEmpty (categories s)\<rparr>)"

text \<open>\<open>for (const key of Object.keys(src.handling)) dst.handling[key] = src.handling[key]\<close>:
  an assignment to a key that \<open>dst.handling\<close> has keeps the key's place and replaces
  its value, one to a new key appends it.\<close>

definition mergeHandling ::
  "(string \<times> hval) list \<Rightarrow> (string \<times> hval) list \<Rightarrow> (string \<times> hval) list" where
  "mergeHandling dst src =
     foldl (\<lambda>d key. case map_of src key of None \<Rightarrow> d | Some v \<Rightarrow> AList.update key v d)
       dst (map fst src)"

text \<open>\<open>mergeConstraints(dst, src)\<close> mutates \<open>dst\<close>; the model returns it. A falsy \<open>src\<close>
  (\<open>null\<close> or \<open>undefined\<close>) is \<open>None\<close>.\<close>

definition mergeConstraints :: "AccConstraints \<Rightarrow> Constraints option \<Rightarrow> AccConstraints" where
  "mergeConstraints dst src =
     (case src of
        None \<Rightarrow> dst
      | Some s \<Rightarrow>
          \<lparr>acc_provides = acc_provides dst @ orEmpty (provides s),
           acc_requires = acc_requires dst @ orEmpty (requires s),
           acc_allow = mergeTileList (acc_allow dst) (allow s),
           acc_disallow = mergeTileList (acc_disallow dst) (disallow s),
           acc_handling =
             (case handling s of
                None \<Rightarrow> acc_handling dst
              | Some h \<Rightarrow> mergeHandling (acc_handling dst) h)\<rparr>)"

section \<open>The suggestion engine\<close>

text \<open>
  The catalog is the global \<open>tiles\<close> of the source; the functions that read it take it
  as their first argument. Each of its four partitions is an object used as a
  dictionary, held as the list of its own properties in insertion order (what
  \<open>Object.keys\<close> enumerates), with distinct keys. Properties inherited from the
  object prototype are not part of the model.
\<close>

record TileDatabase =
  db_sensors :: "(string \<times> TileDefn) list"
  db_filters :: "(string \<times> TileDefn) list"
  db_actuators :: "(string \<times> TileDefn) list"
  db_modifiers :: "(string \<times> TileDefn) list"

text \<open>\<open>Object.keys(m).map(id => m[id])\<close>.\<close>

definition catalogValues :: "(string \<times> TileDefn) list \<Rightarrow> TileDefn list" where
  "catalogValues m = List.map_filter (\<lambda>id. map_of m id) (map fst m)"

text \<open>\<open>!tile.hidden\<close>.\<close>

definition notHidden :: "TileDefn \<Rightarrow> bool" where
  "notHidden tile = (case hidden tile of None \<Rightarrow> True | Some h \<Rightarrow> \<not> h)"

text \<open>\<open>a.weight || 100\<close>: an absent weight and the weight 0 are both falsy.\<close>

definition weightOr100 :: "TileDefn \<Rightarrow> int" where
  "weightOr100 a = (case weight a of None \<Rightarrow> 100 | Some w \<Rightarrow> if w = 0 then 100 else w)"

text \<open>\<open>.sort((a, b) => wa - wb)\<close>: the comparator orders by the key \<open>weightOr100\<close> and
  the sort of the language is stable, which is the stable insertion sort by that key.\<close>

definition sortByWeight :: "TileDefn list \<Rightarrow> TileDefn list" where
  "sortByWeight ts = sort_key weightOr100 ts"

definition visibleByWeight :: "(string \<times> TileDefn) list \<Rightarrow> TileDefn list" where
  "visibleByWeight m = sortByWeight (filter notHidden (catalogValues m))"



text \<open>The three filters of \<open>getCompatibleSet\<close>, in the order of the source.\<close>

definition requiresCheck :: "AccConstraints \<Rightarrow> TileDefn \<Rightarrow> bool" where
  "requiresCheck c tile =
     (case constraints tile of
        None \<Rightarrow> True
      | Some tc \<Rightarrow>
          (case requires tc of
             None \<Rightarrow> True
           | Some reqs \<Rightarrow>
               foldl (\<lambda>met req. met \<or> list_ex (\<lambda>pro. pro = req) (acc_provides c)) False reqs))"

definition allowCheck :: "AccConstraints \<Rightarrow> TileDefn \<Rightarrow> bool" where
  "allowCheck c tile =
     (list_ex (\<lambda>cat. Some cat = category tile) (acc_categories (acc_allow c)) \<or>
      list_ex (\<lambda>id. id = tid tile) (acc_tiles (acc_allow c)))"

definition disallowCheck :: "AccConstraints \<Rightarrow> TileDefn \<Rightarrow> bool" where
  "disallowCheck c tile =
     (\<not> list_ex (\<lambda>cat. Some cat = category tile) (acc_categories (acc_disallow c)) \<and>
      \<not> list_ex (\<lambda>id. id = tid tile) (acc_tiles (acc_disallow c)))"

definition getCompatibleSet :: "TileDefn list \<Rightarrow> AccConstraints \<Rightarrow> TileDefn list" where
  "getCompatibleSet all c =
     filter (disallowCheck c) (filter (allowCheck c) (filter (requiresCheck c) all))"

text \<open>
  \<open>for (let i = 0; i < index; ++i) existing.push(chain[i])\<close>, for an integer \<open>index\<close>:
  no iteration when \<open>index \<le> 0\<close>, and a read at or beyond the length of the array
  gives \<open>undefined\<close>.
\<close>

definition collectExisting :: "TileDefn option list \<Rightarrow> int \<Rightarrow> TileDefn option list" where
  "collectExisting chain index =
     map (\<lambda>i. if i < length chain then chain ! i else None) [0..<nat index]"

text \<open>The truthiness of a \<open>handling\<close> value.\<close>

fun hval_truthy :: "hval \<Rightarrow> bool" where
  "hval_truthy (HStr s) = (s \<noteq> [])"
| "hval_truthy (HNum n) = (n \<noteq> 0)"
| "hval_truthy (HBool b) = b"

text \<open>\<open>last.constraints && last.constraints.handling &&
  last.constraints.handling["terminal"]\<close>, for a tile \<open>last\<close> that exists.\<close>

definition isTerminal :: "TileDefn \<Rightarrow> bool" where
  "isTerminal t =
     (case constraints t of
        None \<Rightarrow> False
      | Some c \<Rightarrow>
          (case handling c of
             None \<Rightarrow> False
           | Some h \<Rightarrow> (case map_of h ''terminal'' of None \<Rightarrow> False | Some v \<Rightarrow> hval_truthy v)))"

text \<open>The test on the last collected tile. Reading \<open>constraints\<close> of \<open>undefined\<close>
  raises a \<open>TypeError\<close>.\<close>

definition terminalCheck :: "TileDefn option list \<Rightarrow> error + bool" where
  "terminalCheck existing =
     (if existing = [] then Inr False
      else (case last existing of None \<Rightarrow> Inl TypeError | Some l \<Rightarrow> Inr (isTerminal l)))"

text \<open>\<open>for (i = 0; i < existing.length; ++i) mergeConstraints(constraints,
  existing[i].constraints)\<close>.\<close>

fun mergeExisting :: "AccConstraints \<Rightarrow> TileDefn option list \<Rightarrow> error + AccConstraints" where
  "mergeExisting c [] = Inr c"
| "mergeExisting c (None # ts) = Inl TypeError"
| "mergeExisting c (Some t # ts) = mergeExisting (mergeConstraints c (constraints t)) ts"

text \<open>\<open>anchor ? anchor.constraints : null\<close>.\<close>

definition anchorConstraints :: "TileDefn option \<Rightarrow> Constraints option" where
  "anchorConstraints anchor = (case anchor of None \<Rightarrow> None | Some t \<Rightarrow> constraints t)"

text \<open>The part "Collect the built-up constraints" of \<open>getFilterSuggestions\<close> and of
  \<open>getModifierSuggestions\<close>.\<close>

definition filterConstraints :: "RuleDefn \<Rightarrow> TileDefn option list \<Rightarrow> error + AccConstraints" where
  "filterConstraints rule existing =
     mergeExisting (mergeConstraints mkConstraints (anchorConstraints (sensor rule))) existing"

definition modifierConstraints :: "RuleDefn \<Rightarrow> TileDefn option list \<Rightarrow> error + AccConstraints" where
  "modifierConstraints rule existing =
     mergeExisting
       (mergeConstraints (mergeConstraints mkConstraints (anchorConstraints (actuator rule)))
          (anchorConstraints (sensor rule)))
       existing"

definition getFilterSuggestions :: "TileDatabase \<Rightarrow> RuleDefn \<Rightarrow> int \<Rightarrow> error + TileDefn list" where
  "getFilterSuggestions db rule index =
     (let all = visibleByWeight (db_filters db);
          existing = collectExisting (filters rule) index
      in case terminalCheck existing of
           Inl e \<Rightarrow> Inl e
         | Inr True \<Rightarrow> Inr []
         | Inr False \<Rightarrow>
             (case filterConstraints rule existing of
                Inl e \<Rightarrow> Inl e
              | Inr c \<Rightarrow> Inr (getCompatibleSet all c)))"

definition getModifierSuggestions :: "TileDatabase \<Rightarrow> RuleDefn \<Rightarrow> int \<Rightarrow> error + TileDefn list" where
  "getModifierSuggestions db rule index =
     (let all = visibleByWeight (db_modifiers db);
          existing = collectExisting (modifiers rule) index
      in case terminalCheck existing of
           Inl e \<Rightarrow> Inl e
         | Inr True \<Rightarrow> Inr []
         | Inr False \<Rightarrow>
             (case modifierConstraints rule existing of
                Inl e \<Rightarrow> Inl e
              | Inr c \<Rightarrow> Inr (getCompatibleSet all c)))"

section \<open>The tile catalog\<close>

text \<open>
  The constant \<open>tiles\<close> of the source, written out, one constant for each tile. An
  object literal is built from the literal with no optional field by setting the
  fields it gives: \<open>mkTile\<close> gives the three fields every tile of the catalog has,
  \<open>noConstraints\<close> is the literal \<open>{}\<close> as a \<open>Constraints\<close>, \<open>noTileList\<close> the literal
  \<open>{}\<close> as an \<open>allow\<close> or \<open>disallow\<close> value. The identifiers are those of the table
  \<open>tid\<close> (\<open>tid.sensor.always = "S1"\<close>, ..., \<open>tid.filter.me = "F6"\<close>,
  \<open>tid.filter.it = "F7"\<close>, ..., \<open>tid.modifier.express_sad = "M20"\<close>). The source gives
  the key \<open>tid.filter.express_none\<close> twice, with the same value; an object literal
  keeps one property for it, at the place of the first. The field \<open>produces\<close> that
  the modifiers "me" and "it" carry in their constraints is not a field of
  \<open>Constraints\<close> and no code reads it; the record has no place for it.
\<close>

definition mkTile :: "TileType \<Rightarrow> string \<Rightarrow> string \<Rightarrow> TileDefn" where
  "mkTile ty i n =
     \<lparr>type = ty, tid = i, name = n, weight = None, hidden = None, category = None,
      constraints = None, phase = None, priority = None\<rparr>"

definition noTileList :: TileList where
  "noTileList = \<lparr>tiles = None, categories = None\<rparr>"

definition noConstraints :: Constraints where
  "noConstraints =
     \<lparr>provides = None, requires = None, allow = None, disallow = None, handling = None\<rparr>"

definition sensor_always :: TileDefn where
  "sensor_always =
     (mkTile SENSOR ''S1'' ''Always'')
       \<lparr>phase := Some ''pre'',
        hidden := Some True\<rparr>"

definition sensor_see :: TileDefn where
  "sensor_see =
     (mkTile SENSOR ''S2'' ''See'')
       \<lparr>phase := Some ''pre'',
        weight := Some 1,
        constraints := Some (noConstraints
          \<lparr>provides := Some [''target''],
           allow := Some (noTileList
             \<lparr>categories := Some [''subject'', ''direct-subject'',
                ''distance'', ''expression'']\<rparr>),
           disallow := Some (noTileList\<lparr>tiles := Some [''F6'']\<rparr>)\<rparr>)\<rparr>"

definition sensor_bump :: TileDefn where
  "sensor_bump =
     (mkTile SENSOR ''S3'' ''Bump'')
       \<lparr>phase := Some ''pre'',
        weight := Some 2,
        constraints := Some (noConstraints
          \<lparr>provides := Some [''target''],
           allow := Some (noTileList
             \<lparr>categories := Some [''subject'', ''direct-subject'',
                ''expression'']\<rparr>),
           disallow := Some (noTileList\<lparr>tiles := Some [''F6'']\<rparr>)\<rparr>)\<rparr>"

definition sensor_dpad :: TileDefn where
  "sensor_dpad =
     (mkTile SENSOR ''S4'' ''DPad'')
       \<lparr>phase := Some ''pre'',
        constraints := Some (noConstraints
          \<lparr>provides := Some [''input'', ''direction''],
           allow := Some (noTileList
             \<lparr>categories := Some [''dpad-direction'',
                ''button-event'']\<rparr>)\<rparr>)\<rparr>"

definition sensor_button_a :: TileDefn where
  "sensor_button_a =
     (mkTile SENSOR ''S5'' ''A'')
       \<lparr>phase := Some ''pre'',
        constraints := Some (noConstraints
          \<lparr>provides := Some [''input''],
           allow := Some (noTileList
             \<lparr>categories := Some [''button-event'']\<rparr>)\<rparr>)\<rparr>"

definition sensor_button_b :: TileDefn where
  "sensor_button_b =
     (mkTile SENSOR ''S6'' ''B'')
       \<lparr>phase := Some ''pre'',
        constraints := Some (noConstraints
          \<lparr>provides := Some [''input''],
           allow := Some (noTileList
             \<lparr>categories := Some [''button-event'']\<rparr>)\<rparr>)\<rparr>"

definition sensor_timer :: TileDefn where
  "sensor_timer =
     (mkTile SENSOR ''S7'' ''Timer'')
       \<lparr>phase := Some ''post'',
        constraints := Some (noConstraints
          \<lparr>allow := Some (noTileList
            \<lparr>categories := Some [''timespan'']\<rparr>)\<rparr>)\<rparr>"

definition filter_kodu :: TileDefn where
  "filter_kodu =
     (mkTile FILTER ''F1'' ''Kodu'')
       \<lparr>category := Some ''subject'',
        priority := Some 10,
        constraints := Some (noConstraints
          \<lparr>provides := Some [''target''],
           disallow := Some (noTileList
             \<lparr>categories := Some [''subject'',
                ''direct-subject'']\<rparr>)\<rparr>)\<rparr>"

definition filter_tree :: TileDefn where
  "filter_tree =
     (mkTile FILTER ''F2'' ''Tree'')
       \<lparr>category := Some ''subject'',
        priority := Some 10,
        constraints := Some (noConstraints
          \<lparr>provides := Some [''target''],
           disallow := Some (noTileList
             \<lparr>categories := Some [''subject'',
                ''direct-subject'']\<rparr>)\<rparr>)\<rparr>"

definition filter_apple :: TileDefn where
  "filter_apple =
     (mkTile FILTER ''F3'' ''Apple'')
       \<lparr>category := Some ''subject'',
        priority := Some 10,
        constraints := Some (noConstraints
          \<lparr>provides := Some [''target''],
           disallow := Some (noTileList
             \<lparr>categories := Some [''subject'',
                ''direct-subject'']\<rparr>)\<rparr>)\<rparr>"

definition filter_nearby :: TileDefn where
  "filter_nearby =
     (mkTile FILTER ''F4'' ''nearby'')
       \<lparr>category := Some ''distance'',
        priority := Some 10,
        constraints := Some (noConstraints
          \<lparr>provides := Some [''target''],
           disallow := Some (noTileList\<lparr>tiles := Some [''F5'']\<rparr>),
           handling := Some [(''max-count'', HNum 3)]\<rparr>)\<rparr>"

definition filter_faraway :: TileDefn where
  "filter_faraway =
     (mkTile FILTER ''F5'' ''far away'')
       \<lparr>category := Some ''distance'',
        priority := Some 10,
        constraints := Some (noConstraints
          \<lparr>provides := Some [''target''],
           disallow := Some (noTileList\<lparr>tiles := Some [''F4'']\<rparr>),
           handling := Some [(''max-count'', HNum 3)]\<rparr>)\<rparr>"

definition filter_timespan_short :: TileDefn where
  "filter_timespan_short =
     (mkTile FILTER ''F8'' ''short'')
       \<lparr>category := Some ''timespan'',
        priority := Some 10,
        constraints := Some noConstraints\<rparr>"

definition filter_timespan_long :: TileDefn where
  "filter_timespan_long =
     (mkTile FILTER ''F9'' ''long'')
       \<lparr>category := Some ''timespan'',
        priority := Some 10,
        constraints := Some noConstraints\<rparr>"

definition filter_express_none :: TileDefn where
  "filter_express_none =
     (mkTile FILTER ''F10'' ''none'')
       \<lparr>category := Some ''expression'',
        priority := Some 10,
        constraints := Some (noConstraints
          \<lparr>disallow := Some (noTileList
            \<lparr>categories := Some [''expression'']\<rparr>)\<rparr>)\<rparr>"

definition filter_express_happy :: TileDefn where
  "filter_express_happy =
     (mkTile FILTER ''F11'' ''happy'')
       \<lparr>category := Some ''expression'',
        priority := Some 10,
        constraints := Some (noConstraints
          \<lparr>disallow := Some (noTileList
            \<lparr>categories := Some [''expression'']\<rparr>)\<rparr>)\<rparr>"

definition filter_express_angry :: TileDefn where
  "filter_express_angry =
     (mkTile FILTER ''F12'' ''angry'')
       \<lparr>category := Some ''expression'',
        priority := Some 10,
        constraints := Some (noConstraints
          \<lparr>disallow := Some (noTileList
            \<lparr>categories := Some [''expression'']\<rparr>)\<rparr>)\<rparr>"

definition filter_express_heart :: TileDefn where
  "filter_express_heart =
     (mkTile FILTER ''F13'' ''heart'')
       \<lparr>category := Some ''expression'',
        priority := Some 10,
        constraints := Some (noConstraints
          \<lparr>disallow := Some (noTileList
            \<lparr>categories := Some [''expression'']\<rparr>)\<rparr>)\<rparr>"

definition filter_express_sad :: TileDefn where
  "filter_express_sad =
     (mkTile FILTER ''F14'' ''sad'')
       \<lparr>category := Some ''expression'',
        priority := Some 10,
        constraints := Some (noConstraints
          \<lparr>disallow := Some (noTileList
            \<lparr>categories := Some [''expression'']\<rparr>)\<rparr>)\<rparr>"

definition actuator_move :: TileDefn where
  "actuator_move =
     (mkTile ACTUATOR ''A1'' ''Move'')
       \<lparr>category := Some ''movement'',
        constraints := Some (noConstraints
          \<lparr>allow := Some (noTileList
            \<lparr>categories := Some [''speed'', ''direction'',
               ''direct-object'']\<rparr>)\<rparr>)\<rparr>"

definition actuator_switch_page :: TileDefn where
  "actuator_switch_page =
     (mkTile ACTUATOR ''A2'' ''Switch page'')
       \<lparr>constraints := Some (noConstraints
          \<lparr>allow := Some (noTileList
            \<lparr>categories := Some [''page'']\<rparr>)\<rparr>)\<rparr>"

definition actuator_express :: TileDefn where
  "actuator_express =
     (mkTile ACTUATOR ''A3'' ''Express'')
       \<lparr>constraints := Some (noConstraints
          \<lparr>allow := Some (noTileList
            \<lparr>categories := Some [''expression'']\<rparr>)\<rparr>)\<rparr>"

definition actuator_boom :: TileDefn where
  "actuator_boom =
     (mkTile ACTUATOR ''A4'' ''Boom'')
       \<lparr>hidden := Some True,
        constraints := Some (noConstraints
          \<lparr>allow := Some (noTileList
            \<lparr>categories := Some [''direct-object'']\<rparr>)\<rparr>)\<rparr>"

definition actuator_vanish :: TileDefn where
  "actuator_vanish =
     (mkTile ACTUATOR ''A5'' ''Vanish'')
       \<lparr>constraints := Some (noConstraints
          \<lparr>allow := Some (noTileList
            \<lparr>categories := Some [''direct-object'']\<rparr>)\<rparr>)\<rparr>"

definition actuator_camera_follow :: TileDefn where
  "actuator_camera_follow =
     (mkTile ACTUATOR ''A6'' ''Keep in view'')
       \<lparr>constraints := Some (noConstraints
          \<lparr>allow := Some (noTileList
            \<lparr>categories := Some [''direct-object'']\<rparr>)\<rparr>)\<rparr>"

definition modifier_me :: TileDefn where
  "modifier_me =
     (mkTile MODIFIER ''M1'' ''me'')
       \<lparr>category := Some ''direct-object'',
        priority := Some 10,
        constraints := Some (noConstraints
          \<lparr>requires := Some [''target''],
           disallow := Some (noTileList
             \<lparr>categories := Some [''object'',
                ''direct-object'']\<rparr>)\<rparr>)\<rparr>"

definition modifier_it :: TileDefn where
  "modifier_it =
     (mkTile MODIFIER ''M2'' ''it'')
       \<lparr>category := Some ''direct-object'',
        priority := Some 10,
        constraints := Some (noConstraints
          \<lparr>requires := Some [''target''],
           disallow := Some (noTileList
             \<lparr>categories := Some [''object'',
                ''direct-object'']\<rparr>)\<rparr>)\<rparr>"

definition modifier_kodu :: TileDefn where
  "modifier_kodu =
     (mkTile MODIFIER ''M3'' ''Kodu'')
       \<lparr>category := Some ''object'',
        priority := Some 10,
        constraints := Some (noConstraints
          \<lparr>disallow := Some (noTileList
            \<lparr>categories := Some [''object'',
               ''direct-object'']\<rparr>)\<rparr>)\<rparr>"

definition modifier_tree :: TileDefn where
  "modifier_tree =
     (mkTile MODIFIER ''M4'' ''Tree'')
       \<lparr>category := Some ''object'',
        priority := Some 10,
        constraints := Some (noConstraints
          \<lparr>disallow := Some (noTileList
            \<lparr>categories := Some [''object'',
               ''direct-object'']\<rparr>)\<rparr>)\<rparr>"

definition modifier_apple :: TileDefn where
  "modifier_apple =
     (mkTile MODIFIER ''M5'' ''Apple'')
       \<lparr>category := Some ''object'',
        priority := Some 10,
        constraints := Some (noConstraints
          \<lparr>disallow := Some (noTileList
            \<lparr>categories := Some [''object'',
               ''direct-object'']\<rparr>)\<rparr>)\<rparr>"

definition modifier_quickly :: TileDefn where
  "modifier_quickly =
     (mkTile MODIFIER ''M6'' ''quickly'')
       \<lparr>category := Some ''speed'',
        priority := Some 10,
        constraints := Some (noConstraints
          \<lparr>disallow := Some (noTileList\<lparr>tiles := Some [''M7'']\<rparr>),
           handling := Some [(''max-count'', HNum 3)]\<rparr>)\<rparr>"

definition modifier_slowly :: TileDefn where
  "modifier_slowly =
     (mkTile MODIFIER ''M7'' ''slowly'')
       \<lparr>category := Some ''speed'',
        priority := Some 10,
        constraints := Some (noConstraints
          \<lparr>disallow := Some (noTileList\<lparr>tiles := Some [''M6'']\<rparr>),
           handling := Some [(''max-count'', HNum 3)]\<rparr>)\<rparr>"

definition modifier_toward :: TileDefn where
  "modifier_toward =
     (mkTile MODIFIER ''M8'' ''toward'')
       \<lparr>category := Some ''direction'',
        priority := Some 10,
        constraints := Some (noConstraints
          \<lparr>requires := Some [''target''],
           disallow := Some (noTileList
             \<lparr>tiles := Some [''M1''],
                categories := Some [''direction'']\<rparr>)\<rparr>)\<rparr>"

definition modifier_away :: TileDefn where
  "modifier_away =
     (mkTile MODIFIER ''M9'' ''away'')
       \<lparr>category := Some ''direction'',
        priority := Some 10,
        constraints := Some (noConstraints
          \<lparr>requires := Some [''target''],
           disallow := Some (noTileList
             \<lparr>tiles := Some [''M1''],
                categories := Some [''direction'']\<rparr>)\<rparr>)\<rparr>"

definition modifier_avoid :: TileDefn where
  "modifier_avoid =
     (mkTile MODIFIER ''M10'' ''avoid'')
       \<lparr>category := Some ''direction'',
        priority := Some 20,
        constraints := Some (noConstraints
          \<lparr>requires := Some [''target''],
           disallow := Some (noTileList
             \<lparr>tiles := Some [''M1''],
                categories := Some [''direction'']\<rparr>)\<rparr>)\<rparr>"

definition modifier_page_1 :: TileDefn where
  "modifier_page_1 =
     (mkTile MODIFIER ''M11'' ''page 1'')
       \<lparr>category := Some ''page'',
        priority := Some 10,
        constraints := Some (noConstraints
          \<lparr>handling := Some [(''terminal'', HBool True)]\<rparr>)\<rparr>"

definition modifier_page_2 :: TileDefn where
  "modifier_page_2 =
     (mkTile MODIFIER ''M12'' ''page 2'')
       \<lparr>category := Some ''page'',
        priority := Some 10,
        constraints := Some (noConstraints
          \<lparr>handling := Some [(''terminal'', HBool True)]\<rparr>)\<rparr>"

definition modifier_page_3 :: TileDefn where
  "modifier_page_3 =
     (mkTile MODIFIER ''M13'' ''page 3'')
       \<lparr>category := Some ''page'',
        priority := Some 10,
        constraints := Some (noConstraints
          \<lparr>handling := Some [(''terminal'', HBool True)]\<rparr>)\<rparr>"

definition modifier_page_4 :: TileDefn where
  "modifier_page_4 =
     (mkTile MODIFIER ''M14'' ''page 4'')
       \<lparr>category := Some ''page'',
        priority := Some 10,
        constraints := Some (noConstraints
          \<lparr>handling := Some [(''terminal'', HBool True)]\<rparr>)\<rparr>"

definition modifier_page_5 :: TileDefn where
  "modifier_page_5 =
     (mkTile MODIFIER ''M15'' ''page 5'')
       \<lparr>category := Some ''page'',
        priority := Some 10,
        constraints := Some (noConstraints
          \<lparr>handling := Some [(''terminal'', HBool True)]\<rparr>)\<rparr>"

definition modifier_express_none :: TileDefn where
  "modifier_express_none =
     (mkTile MODIFIER ''M16'' ''none'')
       \<lparr>category := Some ''expression'',
        priority := Some 10,
        constraints := Some (noConstraints
          \<lparr>disallow := Some (noTileList
            \<lparr>categories := Some [''expression'']\<rparr>)\<rparr>)\<rparr>"

definition modifier_express_happy :: TileDefn where
  "modifier_express_happy =
     (mkTile MODIFIER ''M17'' ''happy'')
       \<lparr>category := Some ''expression'',
        priority := Some 10,
        constraints := Some (noConstraints
          \<lparr>disallow := Some (noTileList
            \<lparr>categories := Some [''expression'']\<rparr>)\<rparr>)\<rparr>"

definition modifier_express_angry :: TileDefn where
  "modifier_express_angry =
     (mkTile MODIFIER ''M18'' ''angry'')
       \<lparr>category := Some ''expression'',
        priority := Some 10,
        constraints := Some (noConstraints
          \<lparr>disallow := Some (noTileList
            \<lparr>categories := Some [''expression'']\<rparr>)\<rparr>)\<rparr>"

definition modifier_express_heart :: TileDefn where
  "modifier_express_heart =
     (mkTile MODIFIER ''M19'' ''heart'')
       \<lparr>category := Some ''expression'',
        priority := Some 10,
        constraints := Some (noConstraints
          \<lparr>disallow := Some (noTileList
            \<lparr>categories := Some [''expression'']\<rparr>)\<rparr>)\<rparr>"

definition modifier_express_sad :: TileDefn where
  "modifier_express_sad =
     (mkTile MODIFIER ''M20'' ''sad'')
       \<lparr>category := Some ''expression'',
        priority := Some 10,
        constraints := Some (noConstraints
          \<lparr>disallow := Some (noTileList
            \<lparr>categories := Some [''expression'']\<rparr>)\<rparr>)\<rparr>"

definition kodu_sensors :: "(string \<times> TileDefn) list" where
  "kodu_sensors =
     [(''S1'', sensor_always), (''S2'', sensor_see), (''S3'', sensor_bump),
      (''S4'', sensor_dpad), (''S5'', sensor_button_a), (''S6'', sensor_button_b),
      (''S7'', sensor_timer)]"

definition kodu_filters :: "(string \<times> TileDefn) list" where
  "kodu_filters =
     [(''F1'', filter_kodu), (''F2'', filter_tree), (''F3'', filter_apple),
      (''F4'', filter_nearby), (''F5'', filter_faraway),
      (''F8'', filter_timespan_short), (''F9'', filter_timespan_long),
      (''F10'', filter_express_none), (''F11'', filter_express_happy),
      (''F12'', filter_express_angry), (''F13'', filter_express_heart),
      (''F14'', filter_express_sad)]"

definition kodu_actuators :: "(string \<times> TileDefn) list" where
  "kodu_actuators =
     [(''A1'', actuator_move), (''A2'', actuator_switch_page),
      (''A3'', actuator_express), (''A4'', actuator_boom), (''A5'', actuator_vanish),
      (''A6'', actuator_camera_follow)]"

definition kodu_modifiers :: "(string \<times> TileDefn) list" where
  "kodu_modifiers =
     [(''M1'', modifier_me), (''M2'', modifier_it), (''M3'', modifier_kodu),
      (''M4'', modifier_tree), (''M5'', modifier_apple), (''M6'', modifier_quickly),
      (''M7'', modifier_slowly), (''M8'', modifier_toward), (''M9'', modifier_away),
      (''M10'', modifier_avoid), (''M11'', modifier_page_1), (''M12'', modifier_page_2),
      (''M13'', modifier_page_3), (''M14'', modifier_page_4),
      (''M15'', modifier_page_5), (''M16'', modifier_express_none),
      (''M17'', modifier_express_happy), (''M18'', modifier_express_angry),
      (''M19'', modifier_express_heart), (''M20'', modifier_express_sad)]"

definition kodu_tiles :: TileDatabase where
  "kodu_tiles =
     \<lparr>db_sensors = kodu_sensors, db_filters = kodu_filters,
      db_actuators = kodu_actuators, db_modifiers = kodu_modifiers\<rparr>"

section \<open>The serialization codec\<close>

text \<open>
  The values \<open>toObj\<close> builds and \<open>FromObj\<close> reads (\<open>obj: any\<close>). An object is the list
  of its own properties in insertion order, with distinct keys. A number is held as
  the text \<open>String\<close> gives for it, which is all this code uses of a number: whether
  it is falsy (\<open>0\<close> and \<open>NaN\<close>) and what property key it names.
\<close>

datatype jsval =
    JUndefined
  | JNull
  | JBool bool
  | JNum string
  | JStr string
  | JArr "jsval list"
  | JObj "(string \<times> jsval) list"

fun truthy :: "jsval \<Rightarrow> bool" where
  "truthy JUndefined = False"
| "truthy JNull = False"
| "truthy (JBool b) = b"
| "truthy (JNum n) = (n \<noteq> ''0'' \<and> n \<noteq> ''NaN'')"
| "truthy (JStr s) = (s \<noteq> [])"
| "truthy (JArr xs) = True"
| "truthy (JObj kvs) = True"

text \<open>
  \<open>obj[key]\<close> for the keys this code reads (\<open>"C"\<close>, \<open>"S"\<close>, \<open>"A"\<close>, \<open>"F"\<close>, \<open>"M"\<close>,
  \<open>"R"\<close>, \<open>"P"\<close>): a \<open>TypeError\<close> on \<open>undefined\<close> and \<open>null\<close>, the property of an
  object if it has one, and \<open>undefined\<close> in every other case (a boolean, a number, a
  string and an array have no property of these names).
\<close>

definition objProp :: "(string \<times> jsval) list \<Rightarrow> string \<Rightarrow> jsval" where
  "objProp kvs key = (case map_of kvs key of None \<Rightarrow> JUndefined | Some v \<Rightarrow> v)"

fun getProp :: "jsval \<Rightarrow> string \<Rightarrow> error + jsval" where
  "getProp JUndefined key = Inl TypeError"
| "getProp JNull key = Inl TypeError"
| "getProp (JObj kvs) key = Inr (objProp kvs key)"
| "getProp v key = Inr JUndefined"

text \<open>\<open>xs.join(",")\<close> on the texts of the elements.\<close>

fun joinComma :: "string list \<Rightarrow> string" where
  "joinComma [] = []"
| "joinComma [s] = s"
| "joinComma (s # t # ts) = s @ '','' @ joinComma (t # ts)"

text \<open>The property key a value names when it indexes an object, \<open>String(v)\<close>: an array
  joins the texts of its elements, where \<open>undefined\<close> and \<open>null\<close> give the empty
  text.\<close>

fun toPropertyKey :: "jsval \<Rightarrow> string" where
  "toPropertyKey JUndefined = ''undefined''"
| "toPropertyKey JNull = ''null''"
| "toPropertyKey (JBool b) = (if b then ''true'' else ''false'')"
| "toPropertyKey (JNum n) = n"
| "toPropertyKey (JStr s) = s"
| "toPropertyKey (JArr xs) =
     joinComma (map (\<lambda>x. if x = JUndefined \<or> x = JNull then [] else toPropertyKey x) xs)"
| "toPropertyKey (JObj kvs) = ''[object Object]''"

text \<open>\<open>m[elem]\<close> on a partition of the catalog; a key the partition does not have gives
  \<open>undefined\<close>.\<close>

definition lookupTile :: "(string \<times> TileDefn) list \<Rightarrow> jsval \<Rightarrow> TileDefn option" where
  "lookupTile m elem = map_of m (toPropertyKey elem)"

text \<open>Running a function that may raise over an array, as \<open>Array.prototype.map\<close> does
  with a callback that throws: the first error, in the order of the elements, ends
  the call.\<close>

fun mapE :: "('a \<Rightarrow> error + 'b) \<Rightarrow> 'a list \<Rightarrow> error + 'b list" where
  "mapE f [] = Inr []"
| "mapE f (x # xs) =
     (case f x of
        Inl e \<Rightarrow> Inl e
      | Inr y \<Rightarrow> (case mapE f xs of Inl e \<Rightarrow> Inl e | Inr ys \<Rightarrow> Inr (y # ys)))"

text \<open>\<open>elem.tid\<close> on an element of a chain: a \<open>TypeError\<close> on \<open>undefined\<close>.\<close>

definition elemTid :: "TileDefn option \<Rightarrow> error + jsval" where
  "elemTid elem = (case elem of None \<Rightarrow> Inl TypeError | Some t \<Rightarrow> Inr (JStr (tid t)))"

text \<open>\<open>anchor ? anchor.tid : undefined\<close>.\<close>

definition anchorTid :: "TileDefn option \<Rightarrow> jsval" where
  "anchorTid anchor = (case anchor of None \<Rightarrow> JUndefined | Some t \<Rightarrow> JStr (tid t))"

text \<open>\<open>if (cond) { delete obj.key; }\<close>.\<close>

definition deleteIf :: "bool \<Rightarrow> string \<Rightarrow> (string \<times> jsval) list \<Rightarrow> (string \<times> jsval) list" where
  "deleteIf cond key kvs = (if cond then AList.delete key kvs else kvs)"

text \<open>\<open>RuleDefn.toObj\<close>: the literal with its five keys, then the five deletions. \<open>!obj.C\<close>,
  \<open>!obj.S\<close> and \<open>!obj.A\<close> test falsiness; \<open>!obj.F.length\<close> and \<open>!obj.M.length\<close> test
  for the empty array.\<close>

definition RuleDefn_toObj :: "RuleDefn \<Rightarrow> error + jsval" where
  "RuleDefn_toObj this =
     (case mapE elemTid (filters this) of
        Inl e \<Rightarrow> Inl e
      | Inr F \<Rightarrow>
          (case mapE elemTid (modifiers this) of
             Inl e \<Rightarrow> Inl e
           | Inr M \<Rightarrow>
               (let C = JStr (condition this);
                    S = anchorTid (sensor this);
                    A = anchorTid (actuator this);
                    obj = [(''C'', C), (''S'', S), (''A'', A), (''F'', JArr F), (''M'', JArr M)];
                    obj1 = deleteIf (\<not> truthy C) ''C'' obj;
                    obj2 = deleteIf (\<not> truthy S) ''S'' obj1;
                    obj3 = deleteIf (\<not> truthy A) ''A'' obj2;
                    obj4 = deleteIf (F = []) ''F'' obj3;
                    obj5 = deleteIf (M = []) ''M'' obj4
                in Inr (JObj obj5))))"

text \<open>
  \<open>if (typeof obj === 'string') obj = JSON.parse(obj)\<close>. \<open>JSON.parse\<close> is a function
  of the language, taken as the parameter \<open>parse\<close>; it gives \<open>None\<close> where
  \<open>JSON.parse\<close> raises its \<open>SyntaxError\<close>.
\<close>

definition parseIfString :: "(string \<Rightarrow> jsval option) \<Rightarrow> jsval \<Rightarrow> error + jsval" where
  "parseIfString parse obj =
     (case obj of
        JStr s \<Rightarrow> (case parse s of None \<Rightarrow> Inl SyntaxError | Some v \<Rightarrow> Inr v)
      | _ \<Rightarrow> Inr obj)"

text \<open>\<open>RuleDefn.FromObj\<close>: a field is taken when \<open>typeof obj[key] === 'string'\<close>
  (condition, sensor, actuator) or when \<open>Array.isArray(obj[key])\<close> (filters,
  modifiers), and the rule keeps what the constructor gave otherwise.\<close>

definition RuleDefn_FromObj ::
  "(string \<Rightarrow> jsval option) \<Rightarrow> TileDatabase \<Rightarrow> jsval \<Rightarrow> error + RuleDefn" where
  "RuleDefn_FromObj parse db obj0 =
     (case parseIfString parse obj0 of
        Inl e \<Rightarrow> Inl e
      | Inr obj \<Rightarrow>
     (case getProp obj ''C'' of Inl e \<Rightarrow> Inl e | Inr C \<Rightarrow>
     (case getProp obj ''S'' of Inl e \<Rightarrow> Inl e | Inr S \<Rightarrow>
     (case getProp obj ''A'' of Inl e \<Rightarrow> Inl e | Inr A \<Rightarrow>
     (case getProp obj ''F'' of Inl e \<Rightarrow> Inl e | Inr F \<Rightarrow>
     (case getProp obj ''M'' of Inl e \<Rightarrow> Inl e | Inr M \<Rightarrow>
        (let defn = RuleDefn_new;
             defn1 = (case C of JStr c \<Rightarrow> defn\<lparr>condition := c\<rparr> | _ \<Rightarrow> defn);
             defn2 = (case S of JStr s \<Rightarrow> defn1\<lparr>sensor := lookupTile (db_sensors db) S\<rparr>
                      | _ \<Rightarrow> defn1);
             defn3 = (case A of JStr a \<Rightarrow> defn2\<lparr>actuator := lookupTile (db_actuators db) A\<rparr>
                      | _ \<Rightarrow> defn2);
             defn4 = (case F of
                        JArr fs \<Rightarrow> defn3\<lparr>filters := map (lookupTile (db_filters db)) fs\<rparr>
                      | _ \<Rightarrow> defn3);
             defn5 = (case M of
                        JArr ms \<Rightarrow> defn4\<lparr>modifiers := map (lookupTile (db_modifiers db)) ms\<rparr>
                      | _ \<Rightarrow> defn4)
         in Inr defn5)))))))"

record PageDefn =
  rules :: "RuleDefn list"

definition PageDefn_new :: PageDefn where
  "PageDefn_new = \<lparr>rules = []\<rparr>"






definition PageDefn_toObj :: "PageDefn \<Rightarrow> error + jsval" where
  "PageDefn_toObj this =
     (case mapE RuleDefn_toObj (rules this) of
        Inl e \<Rightarrow> Inl e
      | Inr R \<Rightarrow> Inr (JObj (deleteIf (R = []) ''R'' [(''R'', JArr R)])))"

definition PageDefn_FromObj ::
  "(string \<Rightarrow> jsval option) \<Rightarrow> TileDatabase \<Rightarrow> jsval \<Rightarrow> error + PageDefn" where
  "PageDefn_FromObj parse db obj0 =
     (case parseIfString parse obj0 of
        Inl e \<Rightarrow> Inl e
      | Inr obj \<Rightarrow>
          (case getProp obj ''R'' of
             Inl e \<Rightarrow> Inl e
           | Inr (JArr rs) \<Rightarrow>
               (case mapE (RuleDefn_FromObj parse db) rs of
                  Inl e \<Rightarrow> Inl e
                | Inr rules' \<Rightarrow> Inr (PageDefn_new\<lparr>rules := rules'\<rparr>))
           | Inr _ \<Rightarrow> Inr PageDefn_new))"

record BrainDefn =
  pages :: "PageDefn list"

text \<open>\<open>[0, 1, 2, 3, 4].map(n => new PageDefn())\<close>.\<close>

definition BrainDefn_new :: BrainDefn where
  "BrainDefn_new = \<lparr>pages = map (\<lambda>n. PageDefn_new) [0, 1, 2, 3, 4 :: nat]\<rparr>"



definition BrainDefn_toObj :: "BrainDefn \<Rightarrow> error + jsval" where
  "BrainDefn_toObj this =
     (case mapE PageDefn_toObj (pages this) of
        Inl e \<Rightarrow> Inl e
      | Inr P \<Rightarrow> Inr (JObj [(''P'', JArr P)]))"

text \<open>\<open>obj && obj["P"] && Array.isArray(obj["P"])\<close>: a falsy \<open>obj\<close> is not indexed,
  and an array is truthy.\<close>

definition BrainDefn_FromObj ::
  "(string \<Rightarrow> jsval option) \<Rightarrow> TileDatabase \<Rightarrow> jsval \<Rightarrow> error + BrainDefn" where
  "BrainDefn_FromObj parse db obj0 =
     (case parseIfString parse obj0 of
        Inl e \<Rightarrow> Inl e
      | Inr obj \<Rightarrow>
          (if \<not> truthy obj then Inr BrainDefn_new
           else
             (case getProp obj ''P'' of
                Inl e \<Rightarrow> Inl e
              | Inr (JArr ps) \<Rightarrow>
                  (case mapE (PageDefn_FromObj parse db) ps of
                     Inl e \<Rightarrow> Inl e
                   | Inr pages' \<Rightarrow> Inr (BrainDefn_new\<lparr>pages := pages'\<rparr>))
              | Inr _ \<Rightarrow> Inr BrainDefn_new)))"

section \<open>Notions of the specification\<close>

text \<open>The tile at position \<open>k\<close> of a chain carries \<open>handling.terminal = true\<close>.\<close>

definition terminalAt :: "TileDefn option list \<Rightarrow> nat \<Rightarrow> bool" where
  "terminalAt chain k =
     (k < length chain \<and>
      (case chain ! k of
         None \<Rightarrow> False
       | Some t \<Rightarrow>
           (case constraints t of
              None \<Rightarrow> False
            | Some c \<Rightarrow>
                (case handling c of
                   None \<Rightarrow> False
                 | Some h \<Rightarrow> map_of h ''terminal'' = Some (HBool True)))))"

text \<open>What one source of constraints contributes to a list of the accumulator: nothing
  when the source, the group or the list is absent.\<close>

definition srcList :: "(Constraints \<Rightarrow> string list option) \<Rightarrow> Constraints option \<Rightarrow> string list" where
  "srcList field src = (case src of None \<Rightarrow> [] | Some s \<Rightarrow> orEmpty (field s))"

definition srcTileList ::
  "(Constraints \<Rightarrow> TileList option) \<Rightarrow> (TileList \<Rightarrow> string list option) \<Rightarrow>
   Constraints option \<Rightarrow> string list" where
  "srcTileList grp field src =
     (case src of
        None \<Rightarrow> []
      | Some s \<Rightarrow> (case grp s of None \<Rightarrow> [] | Some g \<Rightarrow> orEmpty (field g)))"

definition srcHandling :: "Constraints option \<Rightarrow> (string \<times> hval) list" where
  "srcHandling src =
     (case src of None \<Rightarrow> [] | Some s \<Rightarrow> (case handling s of None \<Rightarrow> [] | Some h \<Rightarrow> h))"

text \<open>Last writer wins: the value of a handling key after merging the sources in order
  is the one of the last source that has the key.\<close>

fun lastWriter :: "Constraints option list \<Rightarrow> string \<Rightarrow> hval option" where
  "lastWriter [] key = None"
| "lastWriter (src # srcs) key =
     (case lastWriter srcs key of
        Some v \<Rightarrow> Some v
      | None \<Rightarrow> map_of (srcHandling src) key)"

text \<open>The sources of the constraints for a modifier position, in the order of the
  specification: the actuator, the sensor, then the modifiers \<open>ts\<close> placed before the
  position.\<close>

definition modifierSources :: "RuleDefn \<Rightarrow> TileDefn list \<Rightarrow> Constraints option list" where
  "modifierSources rule ts =
     anchorConstraints (actuator rule) # anchorConstraints (sensor rule) # map constraints ts"



text \<open>The shapes \<open>RuleDefn.FromObj\<close> tests for, and a field of the wrong shape:
  not a string for \<open>C\<close>, \<open>S\<close> and \<open>A\<close>, not an array for \<open>F\<close> and \<open>M\<close>.\<close>

definition isString :: "jsval \<Rightarrow> bool" where
  "isString v = (case v of JStr s \<Rightarrow> True | _ \<Rightarrow> False)"

definition isArray :: "jsval \<Rightarrow> bool" where
  "isArray v = (case v of JArr xs \<Rightarrow> True | _ \<Rightarrow> False)"


text \<open>An object has a property of its own under a key.\<close>

definition hasKey :: "string \<Rightarrow> jsval \<Rightarrow> bool" where
  "hasKey key obj = (case obj of JObj kvs \<Rightarrow> key \<in> set (map fst kvs) | _ \<Rightarrow> False)"

text \<open>
  A tile reference resolves in a partition of the catalog when the partition has, under
  the identifier of the tile, that tile. An anchor (sensor or actuator) resolves when
  it is absent or its tile resolves, a chain when each of its elements is present and
  resolves. A rule is stable when its tiles resolve and its condition is not the
  empty string; a page and a brain are stable when their rules are.
\<close>

definition resolves :: "(string \<times> TileDefn) list \<Rightarrow> TileDefn \<Rightarrow> bool" where
  "resolves m t = (map_of m (tid t) = Some t)"

definition anchorResolves :: "(string \<times> TileDefn) list \<Rightarrow> TileDefn option \<Rightarrow> bool" where
  "anchorResolves m anchor = (case anchor of None \<Rightarrow> True | Some t \<Rightarrow> resolves m t)"

definition chainResolves :: "(string \<times> TileDefn) list \<Rightarrow> TileDefn option list \<Rightarrow> bool" where
  "chainResolves m chain =
     list_all (\<lambda>elem. case elem of None \<Rightarrow> False | Some t \<Rightarrow> resolves m t) chain"

definition ruleResolves :: "TileDatabase \<Rightarrow> RuleDefn \<Rightarrow> bool" where
  "ruleResolves db r =
     (anchorResolves (db_sensors db) (sensor r) \<and>
      chainResolves (db_filters db) (filters r) \<and>
      anchorResolves (db_actuators db) (actuator r) \<and>
      chainResolves (db_modifiers db) (modifiers r))"

definition brainResolves :: "TileDatabase \<Rightarrow> BrainDefn \<Rightarrow> bool" where
  "brainResolves db b = list_all (\<lambda>p. list_all (ruleResolves db) (rules p)) (pages b)"

definition ruleStable :: "TileDatabase \<Rightarrow> RuleDefn \<Rightarrow> bool" where
  "ruleStable db r = (condition r \<noteq> [] \<and> ruleResolves db r)"

definition pageStable :: "TileDatabase \<Rightarrow> PageDefn \<Rightarrow> bool" where
  "pageStable db p = list_all (ruleStable db) (rules p)"

definition brainStable :: "TileDatabase \<Rightarrow> BrainDefn \<Rightarrow> bool" where
  "brainStable db b = list_all (pageStable db) (pages b)"

text \<open>\<open>decode(encode(x))\<close> at the three levels.\<close>

definition roundTripRule ::
  "(string \<Rightarrow> jsval option) \<Rightarrow> TileDatabase \<Rightarrow> RuleDefn \<Rightarrow> error + RuleDefn" where
  "roundTripRule parse db r =
     (case RuleDefn_toObj r of Inl e \<Rightarrow> Inl e | Inr obj \<Rightarrow> RuleDefn_FromObj parse db obj)"

definition roundTripPage ::
  "(string \<Rightarrow> jsval option) \<Rightarrow> TileDatabase \<Rightarrow> PageDefn \<Rightarrow> error + PageDefn" where
  "roundTripPage parse db p =
     (case PageDefn_toObj p of Inl e \<Rightarrow> Inl e | Inr obj \<Rightarrow> PageDefn_FromObj parse db obj)"

definition roundTripBrain ::
  "(string \<Rightarrow> jsval option) \<Rightarrow> TileDatabase \<Rightarrow> BrainDefn \<Rightarrow> error + BrainDefn" where
  "roundTripBrain parse db b =
     (case BrainDefn_toObj b of Inl e \<Rightarrow> Inl e | Inr obj \<Rightarrow> BrainDefn_FromObj parse db obj)"



text \<open>
  The three checks of the compatible-set algorithm, in the words of the specification:
  a tile with no \<open>requires\<close> passes the first and another passes it when at least one
  entry of its \<open>requires\<close> is among the accumulated \<open>provides\<close>; a tile passes the second
  when its category is among \<open>allow.categories\<close> or its identifier among \<open>allow.tiles\<close>;
  it passes the third when its category is absent from \<open>disallow.categories\<close> and its
  identifier from \<open>disallow.tiles\<close>.
\<close>

definition requiresMet :: "AccConstraints \<Rightarrow> TileDefn \<Rightarrow> bool" where
  "requiresMet c t =
     (case constraints t of
        None \<Rightarrow> True
      | Some tc \<Rightarrow>
          (case requires tc of
             None \<Rightarrow> True
           | Some reqs \<Rightarrow> set reqs \<inter> set (acc_provides c) \<noteq> {}))"

definition allowListed :: "AccConstraints \<Rightarrow> TileDefn \<Rightarrow> bool" where
  "allowListed c t =
     ((case category t of
         None \<Rightarrow> False
       | Some cat \<Rightarrow> cat \<in> set (acc_categories (acc_allow c))) \<or>
      tid t \<in> set (acc_tiles (acc_allow c)))"

definition notDisallowed :: "AccConstraints \<Rightarrow> TileDefn \<Rightarrow> bool" where
  "notDisallowed c t =
     ((case category t of
         None \<Rightarrow> True
       | Some cat \<Rightarrow> cat \<notin> set (acc_categories (acc_disallow c))) \<and>
      tid t \<notin> set (acc_tiles (acc_disallow c)))"

definition compatible :: "AccConstraints \<Rightarrow> TileDefn \<Rightarrow> bool" where
  "compatible c t = (requiresMet c t \<and> allowListed c t \<and> notDisallowed c t)"



text \<open>The five values of \<open>RuleCondition\<close> in the source, and a brain of the data model:
  each condition is one of them and each tile reference resolves.\<close>

definition RuleCondition_values :: "string list" where
  "RuleCondition_values = [''RC0'', ''RC1'', ''RC2'', ''RC3'', ''RC4'']"

definition brainInDataModel :: "TileDatabase \<Rightarrow> BrainDefn \<Rightarrow> bool" where
  "brainInDataModel db b =
     list_all
       (\<lambda>p. list_all (\<lambda>r. condition r \<in> set RuleCondition_values \<and> ruleResolves db r) (rules p))
       (pages b)"

section \<open>Example inputs\<close>

text \<open>A rule built from tiles of the catalog, a rule that has chains and no anchor, and
  a filter that ends its chain (the catalog has terminal modifiers only).\<close>

definition exampleRule :: RuleDefn where
  "exampleRule =
     \<lparr>condition = ''RC1'', sensor = Some sensor_see, filters = [Some filter_kodu],
      actuator = Some actuator_switch_page, modifiers = [Some modifier_page_1]\<rparr>"

definition orphanRule :: RuleDefn where
  "orphanRule = RuleDefn_new\<lparr>filters := [Some filter_kodu], modifiers := [Some modifier_me]\<rparr>"

definition terminalFilter :: TileDefn where
  "terminalFilter =
     (mkTile FILTER ''F99'' ''last'')
       \<lparr>category := Some ''subject'',
        constraints := Some (noConstraints\<lparr>handling := Some [(''terminal'', HBool True)]\<rparr>)\<rparr>"

text \<open>A rule whose actuator, sensor and first modifier write the same handling keys.\<close>

definition orderRule :: RuleDefn where
  "orderRule =
     \<lparr>condition = ''RC0'',
      sensor = Some (sensor_see\<lparr>constraints := Some (noConstraints
        \<lparr>provides := Some [''target''], handling := Some [(''mode'', HStr ''sensor'')]\<rparr>)\<rparr>),
      filters = [],
      actuator = Some (actuator_move\<lparr>constraints := Some (noConstraints
        \<lparr>provides := Some [''target''],
         allow := Some (noTileList\<lparr>categories := Some [''speed'']\<rparr>),
         handling := Some [(''mode'', HStr ''actuator''), (''max-count'', HNum 1)]\<rparr>)\<rparr>),
      modifiers = [Some modifier_quickly, Some modifier_slowly]\<rparr>"


text \<open>A brain of two pages over \<open>exampleRule\<close>, the brain of one rule whose condition
  is the empty string, and a brain record of two pages.\<close>

definition exampleBrain :: BrainDefn where
  "exampleBrain = \<lparr>pages = [\<lparr>rules = [exampleRule, RuleDefn_new]\<rparr>, PageDefn_new]\<rparr>"

definition blankConditionBrain :: BrainDefn where
  "blankConditionBrain = \<lparr>pages = [\<lparr>rules = [exampleRule\<lparr>condition := []\<rparr>]\<rparr>]\<rparr>"


text \<open>The constraints accumulated for the first filter position of \<open>exampleRule\<close>.\<close>

definition seeConstraints :: AccConstraints where
  "seeConstraints =
     \<lparr>acc_provides = [''target''], acc_requires = [],
      acc_allow = \<lparr>acc_tiles = [],
        acc_categories = [''subject'', ''direct-subject'', ''distance'', ''expression'']\<rparr>,
      acc_disallow = \<lparr>acc_tiles = [''F6''], acc_categories = []\<rparr>,
      acc_handling = []\<rparr>"




text \<open>A tile that has the identifier of the catalog's sensor "See" and another name, and
  a brain that refers to it.\<close>

definition renamedSee :: TileDefn where
  "renamedSee = sensor_see\<lparr>name := ''Look''\<rparr>"

definition renamedTileBrain :: BrainDefn where
  "renamedTileBrain = \<lparr>pages = [\<lparr>rules = [RuleDefn_new\<lparr>sensor := Some renamedSee\<rparr>]\<rparr>]\<rparr>"

section \<open>Validity repair\<close>

text \<open>
  Claim C7. After \<open>ensureValid\<close>, a rule with no sensor has no filters and a rule with no
  actuator has no modifiers; the condition, the sensor and the actuator are unchanged,
  a chain whose anchor is present is unchanged, and a second application changes
  nothing.
\<close>

theorem ensureValid_repairs:
  "(sensor r = None \<longrightarrow> filters (ensureValid r) = []) \<and>
   (actuator r = None \<longrightarrow> modifiers (ensureValid r) = []) \<and>
   condition (ensureValid r) = condition r \<and>
   sensor (ensureValid r) = sensor r \<and>
   actuator (ensureValid r) = actuator r \<and>
   (sensor r \<noteq> None \<longrightarrow> filters (ensureValid r) = filters r) \<and>
   (actuator r \<noteq> None \<longrightarrow> modifiers (ensureValid r) = modifiers r) \<and>
   ensureValid (ensureValid r) = ensureValid r"
  by (cases "sensor r"; cases "actuator r") (simp_all add: ensureValid_def Let_def)

theorem ensureValid_repairs_witness:
  "filters (ensureValid orphanRule) = [] \<and> modifiers (ensureValid orphanRule) = [] \<and>
   filters orphanRule \<noteq> [] \<and> modifiers orphanRule \<noteq> [] \<and>
   filters (ensureValid exampleRule) = [Some filter_kodu] \<and>
   modifiers (ensureValid exampleRule) = [Some modifier_page_1] \<and>
   ensureValid (ensureValid orphanRule) = ensureValid orphanRule"
  using ensureValid_repairs [of orphanRule] ensureValid_repairs [of exampleRule]
  by (simp add: orphanRule_def exampleRule_def RuleDefn_new_def)

section \<open>Collecting the tiles before an insertion index\<close>

lemma collectExisting_length: "length (collectExisting chain index) = nat index"
  by (simp add: collectExisting_def)

lemma collectExisting_take:
  "index \<le> int (length chain) \<Longrightarrow> collectExisting chain index = take (nat index) chain"
  by (rule nth_equalityI) (auto simp add: collectExisting_def)

lemma collectExisting_beyond:
  assumes "int (length chain) < index"
  shows "collectExisting chain index \<noteq> [] \<and> last (collectExisting chain index) = None"
proof -
  from assms have pos: "0 < nat index" and big: "length chain \<le> nat index - 1" by linarith+
  have ne: "collectExisting chain index \<noteq> []"
    using pos collectExisting_length [of chain index] by auto
  have "last (collectExisting chain index) = collectExisting chain index ! (nat index - 1)"
    using ne by (simp add: last_conv_nth collectExisting_length)
  also have "\<dots> = None"
    using pos big by (simp add: collectExisting_def)
  finally show ?thesis using ne by simp
qed

lemma terminalCheck_beyond:
  "int (length chain) < index \<Longrightarrow> terminalCheck (collectExisting chain index) = Inl TypeError"
  using collectExisting_beyond [of chain index] by (simp add: terminalCheck_def)

lemma collectExisting_nonpositive: "index \<le> 0 \<Longrightarrow> collectExisting chain index = []"
  by (simp add: collectExisting_def)

text \<open>
  Claim C9, as amended. For every index up to the length of the chain, the loop of
  \<open>getFilterSuggestions\<close> and of \<open>getModifierSuggestions\<close> collects the tiles placed
  before the index, every read in bounds; an index at or below 0 collects nothing and
  the call behaves as at index 0. For every rule and every index greater than the
  length of the chain, the loop collects missing elements, the last collected element
  is \<open>undefined\<close>, and the terminal check raises a \<open>TypeError\<close> on reading its
  \<open>constraints\<close>.
\<close>

theorem index_beyond_chain_raises:
  "(index \<le> int (length (filters r)) \<longrightarrow>
      collectExisting (filters r) index = take (nat index) (filters r)) \<and>
   (index \<le> int (length (modifiers r)) \<longrightarrow>
      collectExisting (modifiers r) index = take (nat index) (modifiers r)) \<and>
   (index \<le> 0 \<longrightarrow>
      getFilterSuggestions db r index = getFilterSuggestions db r 0 \<and>
      getModifierSuggestions db r index = getModifierSuggestions db r 0) \<and>
   (int (length (filters r)) < index \<longrightarrow>
      last (collectExisting (filters r) index) = None \<and>
      getFilterSuggestions db r index = Inl TypeError) \<and>
   (int (length (modifiers r)) < index \<longrightarrow>
      last (collectExisting (modifiers r) index) = None \<and>
      getModifierSuggestions db r index = Inl TypeError)"
  by (simp add: collectExisting_take collectExisting_beyond terminalCheck_beyond
      collectExisting_nonpositive getFilterSuggestions_def getModifierSuggestions_def Let_def)

lemma exampleRule_filter_suggestions:
  "getFilterSuggestions kodu_tiles exampleRule 0 =
     Inr [filter_kodu, filter_tree, filter_apple, filter_nearby, filter_faraway,
          filter_express_none, filter_express_happy, filter_express_angry,
          filter_express_heart, filter_express_sad]"
  "getFilterSuggestions kodu_tiles exampleRule (- 1) =
     Inr [filter_kodu, filter_tree, filter_apple, filter_nearby, filter_faraway,
          filter_express_none, filter_express_happy, filter_express_angry,
          filter_express_heart, filter_express_sad]"
  by code_simp+

theorem index_beyond_chain_raises_witness:
  "collectExisting (filters exampleRule) 1 = [Some filter_kodu] \<and>
   collectExisting (modifiers exampleRule) 1 = [Some modifier_page_1] \<and>
   getFilterSuggestions kodu_tiles exampleRule (- 1) =
     getFilterSuggestions kodu_tiles exampleRule 0 \<and>
   getModifierSuggestions kodu_tiles exampleRule (- 1) =
     getModifierSuggestions kodu_tiles exampleRule 0 \<and>
   last (collectExisting (filters exampleRule) 2) = None \<and>
   getFilterSuggestions kodu_tiles exampleRule 2 = Inl TypeError \<and>
   last (collectExisting (modifiers exampleRule) 2) = None \<and>
   getModifierSuggestions kodu_tiles exampleRule 2 = Inl TypeError"
  using index_beyond_chain_raises [of 1 exampleRule kodu_tiles]
    index_beyond_chain_raises [of 2 exampleRule kodu_tiles]
    index_beyond_chain_raises [of "- 1" exampleRule kodu_tiles]
  by (simp add: exampleRule_def)

text \<open>
  Claim C9 as stated fails below 0: at index \<open>-1\<close>, outside \<open>0 \<le> index \<le> length\<close>, the
  loop reads no element, the terminal check is not made, and \<open>getFilterSuggestions\<close>
  returns the suggestions of index 0.
\<close>

theorem negative_index_returns:
  "\<not> (0 \<le> (- 1 :: int)) \<and>
   collectExisting (filters exampleRule) (- 1) = [] \<and>
   getFilterSuggestions kodu_tiles exampleRule (- 1) =
     Inr [filter_kodu, filter_tree, filter_apple, filter_nearby, filter_faraway,
          filter_express_none, filter_express_happy, filter_express_angry,
          filter_express_heart, filter_express_sad]"
  by (simp add: exampleRule_filter_suggestions collectExisting_def)

section \<open>The terminal short-circuit\<close>

lemma terminalCheck_terminalAt:
  assumes "terminalAt chain k"
  shows "terminalCheck (collectExisting chain (int k + 1)) = Inr True"
proof -
  from assms have k: "k < length chain" by (simp add: terminalAt_def)
  then have ce: "collectExisting chain (int k + 1) = take (Suc k) chain"
    using collectExisting_take [of "int k + 1" chain] by (simp add: nat_add_distrib)
  have ne: "take (Suc k) chain \<noteq> []" using k by auto
  have "last (take (Suc k) chain) = chain ! k"
    using k by (simp add: take_Suc_conv_app_nth)
  then show ?thesis
    using assms ne ce
    by (auto simp add: terminalCheck_def terminalAt_def isTerminal_def
        split: option.splits)
qed

text \<open>
  Claim C5. For every rule whose filter chain has at position \<open>k\<close> a tile with
  \<open>handling.terminal = true\<close>, \<open>getFilterSuggestions\<close> at index \<open>k + 1\<close> returns the
  empty sequence; the same holds of \<open>getModifierSuggestions\<close> over the modifier chain.
\<close>

theorem terminal_short_circuit:
  "(terminalAt (filters r) k \<longrightarrow> getFilterSuggestions db r (int k + 1) = Inr []) \<and>
   (terminalAt (modifiers r) k \<longrightarrow> getModifierSuggestions db r (int k + 1) = Inr [])"
  by (simp add: terminalCheck_terminalAt getFilterSuggestions_def getModifierSuggestions_def
      Let_def)

theorem terminal_short_circuit_witness:
  "terminalAt (modifiers exampleRule) 0 \<and>
   getModifierSuggestions kodu_tiles exampleRule 1 = Inr [] \<and>
   terminalAt (filters (exampleRule\<lparr>filters := [Some filter_kodu, Some terminalFilter]\<rparr>)) 1 \<and>
   getFilterSuggestions kodu_tiles
     (exampleRule\<lparr>filters := [Some filter_kodu, Some terminalFilter]\<rparr>) 2 = Inr []"
  using terminal_short_circuit [of exampleRule 0 kodu_tiles]
    terminal_short_circuit [of "exampleRule\<lparr>filters := [Some filter_kodu, Some terminalFilter]\<rparr>" 1 kodu_tiles]
  by (simp add: exampleRule_def terminalAt_def terminalFilter_def modifier_page_1_def
      noConstraints_def mkTile_def)

section \<open>The allow check\<close>

lemma mergeExisting_defined:
  "mergeExisting c existing = Inr c' \<Longrightarrow> None \<notin> set existing"
  by (induction c existing rule: mergeExisting.induct) auto

lemma terminalCheck_defined:
  "None \<notin> set existing \<Longrightarrow> \<exists>b. terminalCheck existing = Inr b"
proof (cases "existing = []")
  case True
  then show ?thesis by (auto simp add: terminalCheck_def)
next
  case False
  assume "None \<notin> set existing"
  with False have "last existing \<noteq> None"
    using last_in_set [of existing] by metis
  with False show ?thesis
    by (auto simp add: terminalCheck_def)
qed

lemma allowCheck_iff:
  "allowCheck c t \<longleftrightarrow>
     (\<exists>cat. category t = Some cat \<and> cat \<in> set (acc_categories (acc_allow c))) \<or>
     tid t \<in> set (acc_tiles (acc_allow c))"
  by (simp add: allowCheck_def list_ex_iff) (metis)

lemma getCompatibleSet_no_allow:
  "acc_categories (acc_allow c) = [] \<Longrightarrow> acc_tiles (acc_allow c) = [] \<Longrightarrow>
   getCompatibleSet all c = []"
  by (simp add: getCompatibleSet_def allowCheck_def)

lemma suggestions_no_allow:
  assumes "build existing = Inr c"
    and "None \<notin> set existing"
    and "acc_categories (acc_allow c) = []" and "acc_tiles (acc_allow c) = []"
  shows "(case terminalCheck existing of
            Inl e \<Rightarrow> Inl e
          | Inr True \<Rightarrow> Inr []
          | Inr False \<Rightarrow>
              (case build existing of
                 Inl e \<Rightarrow> Inl e
               | Inr c \<Rightarrow> Inr (getCompatibleSet all c))) = Inr []"
proof -
  obtain b where "terminalCheck existing = Inr b"
    using terminalCheck_defined [OF assms(2)] by blast
  then show ?thesis
    using assms by (cases b) (simp_all add: getCompatibleSet_no_allow)
qed

lemma met_fold:
  "foldl (\<lambda>met req. met \<or> P req) m reqs \<longleftrightarrow> m \<or> (\<exists>req \<in> set reqs. P req)"
  by (induction reqs arbitrary: m) auto

lemma requiresCheck_iff: "requiresCheck c t \<longleftrightarrow> requiresMet c t"
  by (auto simp add: requiresCheck_def requiresMet_def met_fold list_ex_iff
      split: option.splits)

lemma allowCheck_listed: "allowCheck c t \<longleftrightarrow> allowListed c t"
  by (auto simp add: allowCheck_def allowListed_def list_ex_iff split: option.splits)

lemma disallowCheck_iff: "disallowCheck c t \<longleftrightarrow> notDisallowed c t"
  by (auto simp add: disallowCheck_def notDisallowed_def list_ex_iff split: option.splits)

lemma getCompatibleSet_filter: "getCompatibleSet all c = filter (compatible c) all"
proof -
  have "getCompatibleSet all c =
      filter (\<lambda>t. requiresCheck c t \<and> allowCheck c t \<and> disallowCheck c t) all"
    by (simp add: getCompatibleSet_def conj_commute conj_left_commute)
  also have "\<dots> = filter (compatible c) all"
    by (rule filter_cong)
      (simp_all add: requiresCheck_iff allowCheck_listed disallowCheck_iff compatible_def)
  finally show ?thesis .
qed

lemma getCompatibleSet_member:
  "t \<in> set (getCompatibleSet all c) \<longleftrightarrow>
     t \<in> set all \<and> requiresMet c t \<and>
     ((\<exists>cat. category t = Some cat \<and> cat \<in> set (acc_categories (acc_allow c))) \<or>
      tid t \<in> set (acc_tiles (acc_allow c))) \<and>
     notDisallowed c t"
  by (simp add: getCompatibleSet_filter compatible_def allowCheck_listed [symmetric]
      allowCheck_iff)

lemma suggestions_not_terminal:
  assumes "build existing = Inr c" and "terminalCheck existing = Inr False"
  shows "(case terminalCheck existing of
            Inl e \<Rightarrow> Inl e
          | Inr True \<Rightarrow> Inr []
          | Inr False \<Rightarrow>
              (case build existing of
                 Inl e \<Rightarrow> Inl e
               | Inr c \<Rightarrow> Inr (getCompatibleSet all c))) = Inr (filter (compatible c) all)"
  using assms by (simp add: getCompatibleSet_filter)

text \<open>
  Claim C3. For every accumulated constraint set \<open>c\<close> and every candidate tile \<open>t\<close>,
  \<open>t\<close> passes the allow check exactly when its category is in \<open>c.allow.categories\<close> or
  its identifier is in \<open>c.allow.tiles\<close>. The compatible set is the candidate list
  filtered, in order, by the three checks of the specification, so that a candidate is
  in it exactly when it meets the requires check, is allow-listed and is not
  disallowed; at a position that is not after a terminal tile the suggestions are the
  weight-ordered catalog partition filtered so. For every insertion position whose
  accumulated allow lists are both empty, \<open>getFilterSuggestions\<close> and
  \<open>getModifierSuggestions\<close> return the empty sequence.
\<close>

theorem allow_check_whitelist:
  "(allowCheck c t \<longleftrightarrow>
      (\<exists>cat. category t = Some cat \<and> cat \<in> set (acc_categories (acc_allow c))) \<or>
      tid t \<in> set (acc_tiles (acc_allow c))) \<and>
   set (getCompatibleSet all c) \<subseteq> {t. allowCheck c t} \<and>
   getCompatibleSet all c = filter (compatible c) all \<and>
   (t \<in> set (getCompatibleSet all c) \<longleftrightarrow>
      t \<in> set all \<and> requiresMet c t \<and>
      ((\<exists>cat. category t = Some cat \<and> cat \<in> set (acc_categories (acc_allow c))) \<or>
       tid t \<in> set (acc_tiles (acc_allow c))) \<and>
      notDisallowed c t) \<and>
   (filterConstraints r (collectExisting (filters r) index) = Inr c \<and>
    terminalCheck (collectExisting (filters r) index) = Inr False \<longrightarrow>
      getFilterSuggestions db r index =
        Inr (filter (compatible c) (visibleByWeight (db_filters db)))) \<and>
   (modifierConstraints r (collectExisting (modifiers r) index) = Inr c \<and>
    terminalCheck (collectExisting (modifiers r) index) = Inr False \<longrightarrow>
      getModifierSuggestions db r index =
        Inr (filter (compatible c) (visibleByWeight (db_modifiers db)))) \<and>
   (filterConstraints r (collectExisting (filters r) index) = Inr c \<and>
    acc_categories (acc_allow c) = [] \<and> acc_tiles (acc_allow c) = [] \<longrightarrow>
      getFilterSuggestions db r index = Inr []) \<and>
   (modifierConstraints r (collectExisting (modifiers r) index) = Inr c \<and>
    acc_categories (acc_allow c) = [] \<and> acc_tiles (acc_allow c) = [] \<longrightarrow>
      getModifierSuggestions db r index = Inr [])"
proof (intro conjI impI)
  show "allowCheck c t \<longleftrightarrow>
      (\<exists>cat. category t = Some cat \<and> cat \<in> set (acc_categories (acc_allow c))) \<or>
      tid t \<in> set (acc_tiles (acc_allow c))"
    by (rule allowCheck_iff)
  show "set (getCompatibleSet all c) \<subseteq> {t. allowCheck c t}"
    by (auto simp add: getCompatibleSet_def)
  show "getCompatibleSet all c = filter (compatible c) all"
    by (rule getCompatibleSet_filter)
  show "t \<in> set (getCompatibleSet all c) \<longleftrightarrow>
      t \<in> set all \<and> requiresMet c t \<and>
      ((\<exists>cat. category t = Some cat \<and> cat \<in> set (acc_categories (acc_allow c))) \<or>
       tid t \<in> set (acc_tiles (acc_allow c))) \<and>
      notDisallowed c t"
    by (rule getCompatibleSet_member)
next
  assume "filterConstraints r (collectExisting (filters r) index) = Inr c \<and>
    terminalCheck (collectExisting (filters r) index) = Inr False"
  then show "getFilterSuggestions db r index =
      Inr (filter (compatible c) (visibleByWeight (db_filters db)))"
    using suggestions_not_terminal
      [of "filterConstraints r" "collectExisting (filters r) index" c]
    by (simp add: getFilterSuggestions_def Let_def)
next
  assume "modifierConstraints r (collectExisting (modifiers r) index) = Inr c \<and>
    terminalCheck (collectExisting (modifiers r) index) = Inr False"
  then show "getModifierSuggestions db r index =
      Inr (filter (compatible c) (visibleByWeight (db_modifiers db)))"
    using suggestions_not_terminal
      [of "modifierConstraints r" "collectExisting (modifiers r) index" c]
    by (simp add: getModifierSuggestions_def Let_def)
next
  assume a: "filterConstraints r (collectExisting (filters r) index) = Inr c \<and>
    acc_categories (acc_allow c) = [] \<and> acc_tiles (acc_allow c) = []"
  then have "None \<notin> set (collectExisting (filters r) index)"
    by (auto simp add: filterConstraints_def dest: mergeExisting_defined)
  with a show "getFilterSuggestions db r index = Inr []"
    using suggestions_no_allow [of "filterConstraints r" "collectExisting (filters r) index" c]
    by (simp add: getFilterSuggestions_def Let_def)
next
  assume a: "modifierConstraints r (collectExisting (modifiers r) index) = Inr c \<and>
    acc_categories (acc_allow c) = [] \<and> acc_tiles (acc_allow c) = []"
  then have "None \<notin> set (collectExisting (modifiers r) index)"
    by (auto simp add: modifierConstraints_def dest: mergeExisting_defined)
  with a show "getModifierSuggestions db r index = Inr []"
    using suggestions_no_allow [of "modifierConstraints r" "collectExisting (modifiers r) index" c]
    by (simp add: getModifierSuggestions_def Let_def)
qed

lemma exampleRule_position_0:
  "filterConstraints exampleRule (collectExisting (filters exampleRule) 0) = Inr seeConstraints"
  "terminalCheck (collectExisting (filters exampleRule) 0) = Inr False"
  "filter (compatible seeConstraints) (visibleByWeight (db_filters kodu_tiles)) =
     [filter_kodu, filter_tree, filter_apple, filter_nearby, filter_faraway,
      filter_express_none, filter_express_happy, filter_express_angry,
      filter_express_heart, filter_express_sad]"
  "allowCheck seeConstraints filter_kodu"
  "\<not> allowCheck seeConstraints filter_timespan_short"
  "\<not> allowCheck mkConstraints filter_kodu"
  by code_simp+

theorem allow_check_whitelist_witness:
  "\<not> allowCheck mkConstraints filter_kodu \<and>
   allowCheck seeConstraints filter_kodu \<and>
   \<not> allowCheck seeConstraints filter_timespan_short \<and>
   filterConstraints exampleRule (collectExisting (filters exampleRule) 0) = Inr seeConstraints \<and>
   terminalCheck (collectExisting (filters exampleRule) 0) = Inr False \<and>
   getFilterSuggestions kodu_tiles exampleRule 0 =
     Inr [filter_kodu, filter_tree, filter_apple, filter_nearby, filter_faraway,
          filter_express_none, filter_express_happy, filter_express_angry,
          filter_express_heart, filter_express_sad] \<and>
   filterConstraints RuleDefn_new (collectExisting (filters RuleDefn_new) 0) = Inr mkConstraints \<and>
   modifierConstraints RuleDefn_new (collectExisting (modifiers RuleDefn_new) 0) = Inr mkConstraints \<and>
   acc_categories (acc_allow mkConstraints) = [] \<and> acc_tiles (acc_allow mkConstraints) = [] \<and>
   getFilterSuggestions kodu_tiles RuleDefn_new 0 = Inr [] \<and>
   getModifierSuggestions kodu_tiles RuleDefn_new 0 = Inr []"
proof -
  have new: "filterConstraints RuleDefn_new (collectExisting (filters RuleDefn_new) 0) =
      Inr mkConstraints"
    "modifierConstraints RuleDefn_new (collectExisting (modifiers RuleDefn_new) 0) =
      Inr mkConstraints"
    "acc_categories (acc_allow mkConstraints) = []" "acc_tiles (acc_allow mkConstraints) = []"
    by code_simp+
  show ?thesis
    using allow_check_whitelist [of mkConstraints filter_kodu "[]" RuleDefn_new 0 kodu_tiles]
      allow_check_whitelist [of seeConstraints filter_kodu "[]" exampleRule 0 kodu_tiles]
      new exampleRule_position_0
    by simp
qed

section \<open>The accumulated constraints of a modifier position\<close>

lemma mergeHandling_keys:
  "map_of (foldl (\<lambda>d key. case map_of src key of None \<Rightarrow> d | Some v \<Rightarrow> AList.update key v d) d ks) k =
     (if k \<in> set ks then (case map_of src k of Some v \<Rightarrow> Some v | None \<Rightarrow> map_of d k)
      else map_of d k)"
  by (induction ks arbitrary: d) (auto simp add: update_conv' split: option.splits)

lemma mergeHandling_lookup:
  "map_of (mergeHandling d src) k = (case map_of src k of Some v \<Rightarrow> Some v | None \<Rightarrow> map_of d k)"
proof (cases "k \<in> set (map fst src)")
  case True
  then show ?thesis by (simp add: mergeHandling_def mergeHandling_keys)
next
  case False
  then have "map_of src k = None" by (simp add: map_of_eq_None_iff)
  with False show ?thesis by (simp add: mergeHandling_def mergeHandling_keys)
qed

lemma mergeConstraints_provides:
  "acc_provides (mergeConstraints d src) = acc_provides d @ srcList provides src"
  by (simp add: mergeConstraints_def srcList_def split: option.splits)

lemma mergeConstraints_requires:
  "acc_requires (mergeConstraints d src) = acc_requires d @ srcList requires src"
  by (simp add: mergeConstraints_def srcList_def split: option.splits)

lemma mergeConstraints_allow_tiles:
  "acc_tiles (acc_allow (mergeConstraints d src)) =
     acc_tiles (acc_allow d) @ srcTileList allow tiles src"
  by (simp add: mergeConstraints_def mergeTileList_def srcTileList_def split: option.splits)

lemma mergeConstraints_allow_categories:
  "acc_categories (acc_allow (mergeConstraints d src)) =
     acc_categories (acc_allow d) @ srcTileList allow categories src"
  by (simp add: mergeConstraints_def mergeTileList_def srcTileList_def split: option.splits)

lemma mergeConstraints_disallow_tiles:
  "acc_tiles (acc_disallow (mergeConstraints d src)) =
     acc_tiles (acc_disallow d) @ srcTileList disallow tiles src"
  by (simp add: mergeConstraints_def mergeTileList_def srcTileList_def split: option.splits)

lemma mergeConstraints_disallow_categories:
  "acc_categories (acc_disallow (mergeConstraints d src)) =
     acc_categories (acc_disallow d) @ srcTileList disallow categories src"
  by (simp add: mergeConstraints_def mergeTileList_def srcTileList_def split: option.splits)

lemma mergeConstraints_handling:
  "map_of (acc_handling (mergeConstraints d src)) k =
     (case map_of (srcHandling src) k of Some v \<Rightarrow> Some v | None \<Rightarrow> map_of (acc_handling d) k)"
  by (simp add: mergeConstraints_def srcHandling_def mergeHandling_lookup split: option.splits)

lemmas mergeConstraints_lists =
  mergeConstraints_provides mergeConstraints_requires mergeConstraints_allow_tiles
  mergeConstraints_allow_categories mergeConstraints_disallow_tiles
  mergeConstraints_disallow_categories

lemma merge_fold_lists:
  "acc_provides (foldl mergeConstraints d srcs) =
     acc_provides d @ concat (map (srcList provides) srcs) \<and>
   acc_requires (foldl mergeConstraints d srcs) =
     acc_requires d @ concat (map (srcList requires) srcs) \<and>
   acc_tiles (acc_allow (foldl mergeConstraints d srcs)) =
     acc_tiles (acc_allow d) @ concat (map (srcTileList allow tiles) srcs) \<and>
   acc_categories (acc_allow (foldl mergeConstraints d srcs)) =
     acc_categories (acc_allow d) @ concat (map (srcTileList allow categories) srcs) \<and>
   acc_tiles (acc_disallow (foldl mergeConstraints d srcs)) =
     acc_tiles (acc_disallow d) @ concat (map (srcTileList disallow tiles) srcs) \<and>
   acc_categories (acc_disallow (foldl mergeConstraints d srcs)) =
     acc_categories (acc_disallow d) @ concat (map (srcTileList disallow categories) srcs)"
  by (induction srcs arbitrary: d) (simp_all add: mergeConstraints_lists)

lemma merge_fold_handling:
  "map_of (acc_handling (foldl mergeConstraints d srcs)) k =
     (case lastWriter srcs k of Some v \<Rightarrow> Some v | None \<Rightarrow> map_of (acc_handling d) k)"
  by (induction srcs arbitrary: d) (simp_all add: mergeConstraints_handling split: option.splits)

lemma mergeExisting_present:
  "mergeExisting c (map Some ts) = Inr (foldl mergeConstraints c (map constraints ts))"
  by (induction ts arbitrary: c) simp_all

lemma terminalCheck_present:
  "terminalCheck (map Some ts) = Inr (ts \<noteq> [] \<and> isTerminal (last ts))"
  by (simp add: terminalCheck_def last_map)

text \<open>
  Claim C4. For every rule and every modifier insertion index (up to the length of the
  chain, the modifiers before it present), the constraint set \<open>getModifierSuggestions\<close>
  uses is the identity accumulator merged with, in this order, the constraints of the
  actuator, of the sensor, and of each modifier placed before the index. The lists
  \<open>provides\<close>, \<open>requires\<close>, \<open>allow\<close> and \<open>disallow\<close> are the concatenations of the
  lists of the sources in that order, duplicates kept, and each handling key has the
  value of the last source in that order that has the key.
\<close>

theorem modifier_constraints_order:
  assumes "index \<le> int (length (modifiers r))"
    and "take (nat index) (modifiers r) = map Some ts"
  shows "\<exists>c. modifierConstraints r (collectExisting (modifiers r) index) = Inr c \<and>
     c = foldl mergeConstraints mkConstraints (modifierSources r ts) \<and>
     acc_provides c = concat (map (srcList provides) (modifierSources r ts)) \<and>
     acc_requires c = concat (map (srcList requires) (modifierSources r ts)) \<and>
     acc_tiles (acc_allow c) = concat (map (srcTileList allow tiles) (modifierSources r ts)) \<and>
     acc_categories (acc_allow c) =
       concat (map (srcTileList allow categories) (modifierSources r ts)) \<and>
     acc_tiles (acc_disallow c) =
       concat (map (srcTileList disallow tiles) (modifierSources r ts)) \<and>
     acc_categories (acc_disallow c) =
       concat (map (srcTileList disallow categories) (modifierSources r ts)) \<and>
     (\<forall>key. map_of (acc_handling c) key = lastWriter (modifierSources r ts) key) \<and>
     getModifierSuggestions db r index =
       Inr (if ts \<noteq> [] \<and> isTerminal (last ts) then []
            else getCompatibleSet (visibleByWeight (db_modifiers db)) c)"
proof -
  let ?c = "foldl mergeConstraints mkConstraints (modifierSources r ts)"
  have ce: "collectExisting (modifiers r) index = map Some ts"
    using assms by (simp add: collectExisting_take)
  have build: "modifierConstraints r (map Some ts) = Inr ?c"
    by (simp add: modifierConstraints_def modifierSources_def mergeExisting_present)
  have lists: "acc_provides ?c = concat (map (srcList provides) (modifierSources r ts))"
    "acc_requires ?c = concat (map (srcList requires) (modifierSources r ts))"
    "acc_tiles (acc_allow ?c) = concat (map (srcTileList allow tiles) (modifierSources r ts))"
    "acc_categories (acc_allow ?c) =
       concat (map (srcTileList allow categories) (modifierSources r ts))"
    "acc_tiles (acc_disallow ?c) =
       concat (map (srcTileList disallow tiles) (modifierSources r ts))"
    "acc_categories (acc_disallow ?c) =
       concat (map (srcTileList disallow categories) (modifierSources r ts))"
    using merge_fold_lists [of mkConstraints "modifierSources r ts"]
    by (simp_all add: mkConstraints_def)
  have hand: "\<forall>key. map_of (acc_handling ?c) key = lastWriter (modifierSources r ts) key"
    using merge_fold_handling [of mkConstraints "modifierSources r ts"]
    by (simp add: mkConstraints_def split: option.splits)
  have sugg: "getModifierSuggestions db r index =
       Inr (if ts \<noteq> [] \<and> isTerminal (last ts) then []
            else getCompatibleSet (visibleByWeight (db_modifiers db)) ?c)"
  proof (cases "ts = []")
    case True
    with build show ?thesis
      by (simp add: getModifierSuggestions_def Let_def ce terminalCheck_def)
  next
    case False
    with build show ?thesis
      by (simp add: getModifierSuggestions_def Let_def ce terminalCheck_present)
  qed
  show ?thesis
    using build lists hand sugg ce by simp
qed

lemma orderRule_build:
  "modifierConstraints orderRule (collectExisting (modifiers orderRule) 1) =
     Inr \<lparr>acc_provides = [''target'', ''target''], acc_requires = [],
          acc_allow = \<lparr>acc_tiles = [], acc_categories = [''speed'']\<rparr>,
          acc_disallow = \<lparr>acc_tiles = [''M7''], acc_categories = []\<rparr>,
          acc_handling = [(''mode'', HStr ''sensor''), (''max-count'', HNum 3)]\<rparr>"
  by code_simp

lemma orderRule_suggestions:
  "getModifierSuggestions kodu_tiles orderRule 1 = Inr [modifier_quickly]"
  by code_simp

theorem modifier_constraints_order_witness:
  "take (nat 1) (modifiers orderRule) = map Some [modifier_quickly] \<and>
   modifierConstraints orderRule (collectExisting (modifiers orderRule) 1) =
     Inr \<lparr>acc_provides = [''target'', ''target''], acc_requires = [],
          acc_allow = \<lparr>acc_tiles = [], acc_categories = [''speed'']\<rparr>,
          acc_disallow = \<lparr>acc_tiles = [''M7''], acc_categories = []\<rparr>,
          acc_handling = [(''mode'', HStr ''sensor''), (''max-count'', HNum 3)]\<rparr> \<and>
   lastWriter (modifierSources orderRule [modifier_quickly]) ''mode'' = Some (HStr ''sensor'') \<and>
   lastWriter (modifierSources orderRule [modifier_quickly]) ''max-count'' = Some (HNum 3) \<and>
   getModifierSuggestions kodu_tiles orderRule 1 = Inr [modifier_quickly]"
proof -
  have len: "(1::int) \<le> int (length (modifiers orderRule))"
    by (simp add: orderRule_def)
  have pre: "take (nat 1) (modifiers orderRule) = map Some [modifier_quickly]"
    by (simp add: orderRule_def)
  from modifier_constraints_order [OF len pre, of kodu_tiles]
  obtain c where "modifierConstraints orderRule (collectExisting (modifiers orderRule) 1) = Inr c"
    and "\<forall>key. map_of (acc_handling c) key =
      lastWriter (modifierSources orderRule [modifier_quickly]) key"
    by blast
  with orderRule_build
  have "\<forall>key. map_of [(''mode'', HStr ''sensor''), (''max-count'', HNum 3)] key =
      lastWriter (modifierSources orderRule [modifier_quickly]) key"
    by auto
  then have "map_of [(''mode'', HStr ''sensor''), (''max-count'', HNum 3)] ''mode'' =
      lastWriter (modifierSources orderRule [modifier_quickly]) ''mode''"
    and "map_of [(''mode'', HStr ''sensor''), (''max-count'', HNum 3)] ''max-count'' =
      lastWriter (modifierSources orderRule [modifier_quickly]) ''max-count''"
    by blast+
  then have "lastWriter (modifierSources orderRule [modifier_quickly]) ''mode'' =
      Some (HStr ''sensor'')"
    and "lastWriter (modifierSources orderRule [modifier_quickly]) ''max-count'' =
      Some (HNum 3)"
    by simp_all
  then show ?thesis
    using pre orderRule_build orderRule_suggestions by simp
qed

section \<open>Sensor and actuator suggestions\<close>















section \<open>Decoding a rule record\<close>


lemma case_condition:
  "(case v of JStr c \<Rightarrow> r\<lparr>condition := c\<rparr> | _ \<Rightarrow> r) =
     r\<lparr>condition := (if isString v then (case v of JStr c \<Rightarrow> c | _ \<Rightarrow> [])
                     else condition r)\<rparr>"
  by (cases v) (simp_all add: isString_def)

lemma case_sensor:
  "(case v of JStr s \<Rightarrow> r\<lparr>sensor := x\<rparr> | _ \<Rightarrow> r) =
     r\<lparr>sensor := (if isString v then x else sensor r)\<rparr>"
  by (cases v) (simp_all add: isString_def)

lemma case_actuator:
  "(case v of JStr s \<Rightarrow> r\<lparr>actuator := x\<rparr> | _ \<Rightarrow> r) =
     r\<lparr>actuator := (if isString v then x else actuator r)\<rparr>"
  by (cases v) (simp_all add: isString_def)

lemma case_filters:
  "(case v of JArr fs \<Rightarrow> r\<lparr>filters := f fs\<rparr> | _ \<Rightarrow> r) =
     r\<lparr>filters := (if isArray v then (case v of JArr fs \<Rightarrow> f fs | _ \<Rightarrow> [])
                   else filters r)\<rparr>"
  by (cases v) (simp_all add: isArray_def)

lemma case_modifiers:
  "(case v of JArr ms \<Rightarrow> r\<lparr>modifiers := f ms\<rparr> | _ \<Rightarrow> r) =
     r\<lparr>modifiers := (if isArray v then (case v of JArr ms \<Rightarrow> f ms | _ \<Rightarrow> [])
                     else modifiers r)\<rparr>"
  by (cases v) (simp_all add: isArray_def)

lemma FromObj_fields:
  "RuleDefn_FromObj parse db (JObj kvs) =
     Inr \<lparr>condition = (if isString (objProp kvs ''C'')
                       then (case objProp kvs ''C'' of JStr c \<Rightarrow> c | _ \<Rightarrow> [])
                       else RuleCondition_DEFAULT),
          sensor = (if isString (objProp kvs ''S'')
                    then lookupTile (db_sensors db) (objProp kvs ''S'') else None),
          filters = (if isArray (objProp kvs ''F'')
                     then (case objProp kvs ''F'' of
                             JArr fs \<Rightarrow> map (lookupTile (db_filters db)) fs | _ \<Rightarrow> [])
                     else []),
          actuator = (if isString (objProp kvs ''A'')
                      then lookupTile (db_actuators db) (objProp kvs ''A'') else None),
          modifiers = (if isArray (objProp kvs ''M'')
                       then (case objProp kvs ''M'' of
                               JArr ms \<Rightarrow> map (lookupTile (db_modifiers db)) ms | _ \<Rightarrow> [])
                       else [])\<rparr>"
  by (simp add: RuleDefn_FromObj_def parseIfString_def Let_def case_condition case_sensor
      case_actuator case_filters case_modifiers RuleDefn_new_def)





section \<open>Encoding a rule\<close>

lemma mapE_elemTid:
  "mapE elemTid (map Some ts) = Inr (map (\<lambda>t. JStr (tid t)) ts)"
  by (induction ts) (simp_all add: elemTid_def)

lemma keys_deleteIf:
  "fst ` set (deleteIf c key kvs) = (if c then fst ` set kvs - {key} else fst ` set kvs)"
proof -
  have "set (map fst (AList.delete key kvs)) = set (map fst kvs) - {key}"
    by (simp only: delete_keys set_removeAll)
  then show ?thesis by (simp add: deleteIf_def)
qed

lemma objProp_simps:
  "objProp [] key = JUndefined"
  "objProp ((k, v) # kvs) key = (if k = key then v else objProp kvs key)"
  by (simp_all add: objProp_def)

lemma objProp_deleteIf:
  "objProp (deleteIf c key kvs) key' =
     (if c \<and> key = key' then JUndefined else objProp kvs key')"
  by (simp add: deleteIf_def objProp_def delete_conv)

lemma toObj_present:
  assumes "filters r = map Some fs" and "modifiers r = map Some ms"
  shows "RuleDefn_toObj r =
     Inr (JObj
       (deleteIf (ms = []) ''M''
         (deleteIf (fs = []) ''F''
           (deleteIf (\<not> truthy (anchorTid (actuator r))) ''A''
             (deleteIf (\<not> truthy (anchorTid (sensor r))) ''S''
               (deleteIf (condition r = []) ''C''
                 [(''C'', JStr (condition r)), (''S'', anchorTid (sensor r)),
                  (''A'', anchorTid (actuator r)),
                  (''F'', JArr (map (\<lambda>t. JStr (tid t)) fs)),
                  (''M'', JArr (map (\<lambda>t. JStr (tid t)) ms))]))))))"
  using assms by (simp add: RuleDefn_toObj_def mapE_elemTid Let_def)

lemma anchorTid_absent: "anchorTid None = JUndefined"
  by (simp add: anchorTid_def)

text \<open>
  Claim C2, as amended. For every rule whose chains hold no \<open>undefined\<close> element,
  \<open>RuleDefn.toObj\<close> returns a record that has the key \<open>C\<close> exactly when the condition
  is not the empty string, so that the default condition is written as \<open>C: "RC0"\<close>; the
  record omits \<open>S\<close> when the sensor is absent, \<open>A\<close> when the actuator is absent, \<open>F\<close>
  when the filter list is empty and \<open>M\<close> when the modifier list is empty.
\<close>

theorem toObj_omits:
  assumes "filters r = map Some fs" and "modifiers r = map Some ms"
  shows "\<exists>obj. RuleDefn_toObj r = Inr obj \<and>
     (hasKey ''C'' obj \<longleftrightarrow> condition r \<noteq> []) \<and>
     (condition r = RuleCondition_DEFAULT \<longrightarrow> getProp obj ''C'' = Inr (JStr ''RC0'')) \<and>
     (sensor r = None \<longrightarrow> \<not> hasKey ''S'' obj) \<and>
     (actuator r = None \<longrightarrow> \<not> hasKey ''A'' obj) \<and>
     (filters r = [] \<longrightarrow> \<not> hasKey ''F'' obj) \<and>
     (modifiers r = [] \<longrightarrow> \<not> hasKey ''M'' obj)"
  using assms
  by (simp add: toObj_present [OF assms] hasKey_def keys_deleteIf objProp_deleteIf
      anchorTid_absent objProp_simps RuleCondition_DEFAULT_def)

lemma exampleRule_encoded:
  "RuleDefn_toObj exampleRule =
     Inr (JObj [(''C'', JStr ''RC1''), (''S'', JStr ''S2''), (''A'', JStr ''A2''),
                (''F'', JArr [JStr ''F1'']), (''M'', JArr [JStr ''M11''])])"
  "RuleDefn_toObj (RuleDefn_new\<lparr>condition := []\<rparr>) = Inr (JObj [])"
  "RuleDefn_toObj RuleDefn_new = Inr (JObj [(''C'', JStr ''RC0'')])"
  by code_simp+

theorem toObj_omits_witness:
  "RuleDefn_toObj (RuleDefn_new\<lparr>condition := []\<rparr>) = Inr (JObj []) \<and>
   \<not> hasKey ''C'' (JObj []) \<and> \<not> hasKey ''S'' (JObj []) \<and> \<not> hasKey ''A'' (JObj []) \<and>
   \<not> hasKey ''F'' (JObj []) \<and> \<not> hasKey ''M'' (JObj []) \<and>
   RuleDefn_toObj RuleDefn_new = Inr (JObj [(''C'', JStr ''RC0'')]) \<and>
   RuleDefn_toObj exampleRule =
     Inr (JObj [(''C'', JStr ''RC1''), (''S'', JStr ''S2''), (''A'', JStr ''A2''),
                (''F'', JArr [JStr ''F1'']), (''M'', JArr [JStr ''M11''])])"
proof -
  have e: "filters (RuleDefn_new\<lparr>condition := []\<rparr>) = map Some []"
    "modifiers (RuleDefn_new\<lparr>condition := []\<rparr>) = map Some []"
    by (simp_all add: RuleDefn_new_def)
  have d: "filters RuleDefn_new = map Some []" "modifiers RuleDefn_new = map Some []"
    by (simp_all add: RuleDefn_new_def)
  have x: "filters exampleRule = map Some [filter_kodu]"
    "modifiers exampleRule = map Some [modifier_page_1]"
    by (simp_all add: exampleRule_def)
  show ?thesis
    using toObj_omits [OF e] toObj_omits [OF d] toObj_omits [OF x] exampleRule_encoded
    by (simp add: hasKey_def)
qed

text \<open>
  Claim C2 as stated fails on the rule the constructor builds: its condition is the
  default condition and its record has the key \<open>C\<close>.
\<close>

theorem default_condition_emitted:
  "condition RuleDefn_new = RuleCondition_DEFAULT \<and>
   RuleDefn_toObj RuleDefn_new = Inr (JObj [(''C'', JStr ''RC0'')]) \<and>
   hasKey ''C'' (JObj [(''C'', JStr ''RC0'')])"
  by (simp add: RuleDefn_toObj_def RuleDefn_new_def RuleCondition_DEFAULT_def deleteIf_def
      anchorTid_def hasKey_def)

section \<open>The round trip\<close>

lemma mapE_roundtrip:
  assumes "\<forall>x \<in> set xs. \<exists>y. f x = Inr y \<and> g y = Inr x"
  shows "\<exists>ys. mapE f xs = Inr ys \<and> mapE g ys = Inr xs \<and> (ys = [] \<longleftrightarrow> xs = [])"
  using assms
proof (induction xs)
  case Nil
  then show ?case by simp
next
  case (Cons x xs)
  then obtain ys where ys: "mapE f xs = Inr ys" "mapE g ys = Inr xs" by auto
  from Cons.prems obtain y where y: "f x = Inr y" "g y = Inr x" by auto
  from ys y have "mapE f (x # xs) = Inr (y # ys) \<and> mapE g (y # ys) = Inr (x # xs) \<and>
      (y # ys = [] \<longleftrightarrow> x # xs = [])"
    by simp
  then show ?case by (rule exI [of _ "y # ys"])
qed

lemma roundTripRule_split:
  "roundTripRule parse db r = Inr r \<Longrightarrow>
   \<exists>obj. RuleDefn_toObj r = Inr obj \<and> RuleDefn_FromObj parse db obj = Inr r"
  by (auto simp add: roundTripRule_def split: sum.splits)

lemma page_roundtrip:
  assumes "\<forall>r \<in> set (rules p). roundTripRule parse db r = Inr r"
  shows "roundTripPage parse db p = Inr p"
proof -
  from assms have "\<forall>r \<in> set (rules p).
      \<exists>obj. RuleDefn_toObj r = Inr obj \<and> RuleDefn_FromObj parse db obj = Inr r"
    by (blast dest: roundTripRule_split)
  then obtain R where R: "mapE RuleDefn_toObj (rules p) = Inr R"
    "mapE (RuleDefn_FromObj parse db) R = Inr (rules p)" "R = [] \<longleftrightarrow> rules p = []"
    using mapE_roundtrip [of "rules p" RuleDefn_toObj "RuleDefn_FromObj parse db"] by blast
  show ?thesis
  proof (cases "R = []")
    case True
    with R show ?thesis
      by (simp add: roundTripPage_def PageDefn_toObj_def PageDefn_FromObj_def
          parseIfString_def deleteIf_def objProp_simps PageDefn_new_def)
  next
    case False
    with R show ?thesis
      by (simp add: roundTripPage_def PageDefn_toObj_def PageDefn_FromObj_def
          parseIfString_def deleteIf_def objProp_simps PageDefn_new_def)
  qed
qed

lemma roundTripPage_split:
  "roundTripPage parse db p = Inr p \<Longrightarrow>
   \<exists>obj. PageDefn_toObj p = Inr obj \<and> PageDefn_FromObj parse db obj = Inr p"
  by (auto simp add: roundTripPage_def split: sum.splits)

lemma brain_roundtrip:
  assumes "\<forall>p \<in> set (pages b). roundTripPage parse db p = Inr p"
  shows "roundTripBrain parse db b = Inr b"
proof -
  from assms have "\<forall>p \<in> set (pages b).
      \<exists>obj. PageDefn_toObj p = Inr obj \<and> PageDefn_FromObj parse db obj = Inr p"
    by (blast dest: roundTripPage_split)
  then obtain P where P: "mapE PageDefn_toObj (pages b) = Inr P"
    "mapE (PageDefn_FromObj parse db) P = Inr (pages b)"
    using mapE_roundtrip [of "pages b" PageDefn_toObj "PageDefn_FromObj parse db"] by blast
  then show ?thesis
    by (simp add: roundTripBrain_def BrainDefn_toObj_def BrainDefn_FromObj_def
        parseIfString_def objProp_simps BrainDefn_new_def)
qed

lemma kodu_no_empty_key:
  "map_of (db_sensors kodu_tiles) [] = None" "map_of (db_actuators kodu_tiles) [] = None"
  by (simp_all add: kodu_tiles_def kodu_sensors_def kodu_actuators_def)

lemma mapE_length: "mapE f xs = Inr ys \<Longrightarrow> length ys = length xs"
  by (induction xs arbitrary: ys) (auto split: sum.splits)

lemma rule_decoded:
  assumes "filters r = map Some fs" and "modifiers r = map Some ms"
  shows "roundTripRule parse db r =
     Inr \<lparr>condition = (if condition r = [] then RuleCondition_DEFAULT else condition r),
          sensor = (case sensor r of
                      None \<Rightarrow> None
                    | Some t \<Rightarrow> if tid t = [] then None else map_of (db_sensors db) (tid t)),
          filters = map (\<lambda>t. map_of (db_filters db) (tid t)) fs,
          actuator = (case actuator r of
                        None \<Rightarrow> None
                      | Some t \<Rightarrow> if tid t = [] then None else map_of (db_actuators db) (tid t)),
          modifiers = map (\<lambda>t. map_of (db_modifiers db) (tid t)) ms\<rparr>"
proof -
  let ?kvs = "deleteIf (ms = []) ''M''
         (deleteIf (fs = []) ''F''
           (deleteIf (\<not> truthy (anchorTid (actuator r))) ''A''
             (deleteIf (\<not> truthy (anchorTid (sensor r))) ''S''
               (deleteIf (condition r = []) ''C''
                 [(''C'', JStr (condition r)), (''S'', anchorTid (sensor r)),
                  (''A'', anchorTid (actuator r)),
                  (''F'', JArr (map (\<lambda>t. JStr (tid t)) fs)),
                  (''M'', JArr (map (\<lambda>t. JStr (tid t)) ms))]))))"
  have enc: "RuleDefn_toObj r = Inr (JObj ?kvs)"
    by (rule toObj_present [OF assms])
  have vC: "objProp ?kvs ''C'' = (if condition r = [] then JUndefined else JStr (condition r))"
    by (simp add: objProp_deleteIf objProp_simps)
  have vS: "objProp ?kvs ''S'' =
      (if \<not> truthy (anchorTid (sensor r)) then JUndefined else anchorTid (sensor r))"
    by (simp add: objProp_deleteIf objProp_simps)
  have vA: "objProp ?kvs ''A'' =
      (if \<not> truthy (anchorTid (actuator r)) then JUndefined else anchorTid (actuator r))"
    by (simp add: objProp_deleteIf objProp_simps)
  have vF: "objProp ?kvs ''F'' =
      (if fs = [] then JUndefined else JArr (map (\<lambda>t. JStr (tid t)) fs))"
    by (simp add: objProp_deleteIf objProp_simps)
  have vM: "objProp ?kvs ''M'' =
      (if ms = [] then JUndefined else JArr (map (\<lambda>t. JStr (tid t)) ms))"
    by (simp add: objProp_deleteIf objProp_simps)
  have anchor: "(if isString (if \<not> truthy (anchorTid a) then JUndefined else anchorTid a)
          then lookupTile m (if \<not> truthy (anchorTid a) then JUndefined else anchorTid a)
          else None) =
      (case a of None \<Rightarrow> None | Some t \<Rightarrow> if tid t = [] then None else map_of m (tid t))"
    for a m
    by (cases a) (simp_all add: anchorTid_def isString_def lookupTile_def)
  have chain: "(if isArray (if ts = [] then JUndefined else JArr (map (\<lambda>t. JStr (tid t)) ts))
          then (case (if ts = [] then JUndefined else JArr (map (\<lambda>t. JStr (tid t)) ts)) of
                  JArr xs \<Rightarrow> map (lookupTile m) xs | _ \<Rightarrow> [])
          else []) = map (\<lambda>t. map_of m (tid t)) ts"
    for ts m
    by (simp add: isArray_def lookupTile_def comp_def)
  have cond: "(if isString (if condition r = [] then JUndefined else JStr (condition r))
          then (case (if condition r = [] then JUndefined else JStr (condition r)) of
                  JStr c \<Rightarrow> c | _ \<Rightarrow> [])
          else RuleCondition_DEFAULT) =
      (if condition r = [] then RuleCondition_DEFAULT else condition r)"
    by (simp add: isString_def)
  show ?thesis
    unfolding roundTripRule_def enc sum.case FromObj_fields vC vS vA vF vM anchor chain cond
    by (rule refl)
qed

lemma chain_cases: "(\<exists>ts. chain = map Some ts) \<or> None \<in> set chain"
proof (induction chain)
  case Nil
  then show ?case by simp
next
  case (Cons e chain)
  show ?case
  proof (cases e)
    case None
    then show ?thesis by simp
  next
    case (Some t)
    from Cons.IH show ?thesis
    proof
      assume "\<exists>ts. chain = map Some ts"
      then obtain ts where "chain = map Some ts" ..
      with Some have "e # chain = map Some (t # ts)" by simp
      then have "\<exists>ts. e # chain = map Some ts" by (rule exI)
      then show ?thesis by (rule disjI1)
    next
      assume "None \<in> set chain"
      then show ?thesis by simp
    qed
  qed
qed

lemma mapE_elemTid_absent: "None \<in> set chain \<Longrightarrow> mapE elemTid chain = Inl TypeError"
  by (induction chain) (auto simp add: elemTid_def split: option.splits)

lemma toObj_raises:
  assumes "None \<in> set (filters r) \<or> None \<in> set (modifiers r)"
  shows "\<exists>e. RuleDefn_toObj r = Inl e"
proof (cases "mapE elemTid (filters r)")
  case (Inl e)
  then show ?thesis by (simp add: RuleDefn_toObj_def)
next
  case (Inr F)
  then have "None \<notin> set (filters r)" using mapE_elemTid_absent by fastforce
  with assms have "mapE elemTid (modifiers r) = Inl TypeError"
    by (simp add: mapE_elemTid_absent)
  with Inr show ?thesis by (simp add: RuleDefn_toObj_def)
qed

lemma chainResolves_absent: "None \<in> set chain \<Longrightarrow> \<not> chainResolves m chain"
  by (auto simp add: chainResolves_def list_all_iff intro!: bexI [of _ None])

lemma chainResolves_map:
  "chainResolves m (map Some ts) \<longleftrightarrow> map (\<lambda>t. map_of m (tid t)) ts = map Some ts"
  by (simp add: chainResolves_def list_all_iff resolves_def)

lemma anchorResolves_decoded:
  assumes "map_of m [] = None"
  shows "anchorResolves m a \<longleftrightarrow>
     (case a of None \<Rightarrow> None | Some t \<Rightarrow> if tid t = [] then None else map_of m (tid t)) = a"
  using assms by (cases a) (auto simp add: anchorResolves_def resolves_def)

lemma default_not_blank: "RuleCondition_DEFAULT \<noteq> []"
  by (simp add: RuleCondition_DEFAULT_def)

lemma rule_roundtrip_fields:
  assumes fs: "filters r = map Some fs" and ms: "modifiers r = map Some ms"
  shows "roundTripRule parse db r = Inr r \<longleftrightarrow>
      (if condition r = [] then RuleCondition_DEFAULT else condition r) = condition r \<and>
      (case sensor r of None \<Rightarrow> None
       | Some t \<Rightarrow> if tid t = [] then None else map_of (db_sensors db) (tid t)) = sensor r \<and>
      map (\<lambda>t. map_of (db_filters db) (tid t)) fs = map Some fs \<and>
      (case actuator r of None \<Rightarrow> None
       | Some t \<Rightarrow> if tid t = [] then None else map_of (db_actuators db) (tid t)) = actuator r \<and>
      map (\<lambda>t. map_of (db_modifiers db) (tid t)) ms = map Some ms"
proof -
  have r: "r = \<lparr>condition = condition r, sensor = sensor r, filters = map Some fs,
      actuator = actuator r, modifiers = map Some ms\<rparr>"
    using fs ms by (cases r) simp
  show ?thesis
    unfolding rule_decoded [OF fs ms] by (subst (3) r) simp
qed

lemma rule_roundtrip_iff:
  assumes "map_of (db_sensors db) [] = None" and "map_of (db_actuators db) [] = None"
  shows "roundTripRule parse db r = Inr r \<longleftrightarrow> ruleStable db r"
proof (cases "None \<in> set (filters r) \<or> None \<in> set (modifiers r)")
  case True
  then obtain e where "RuleDefn_toObj r = Inl e" using toObj_raises by blast
  then have "roundTripRule parse db r \<noteq> Inr r" by (simp add: roundTripRule_def)
  moreover from True have "\<not> ruleStable db r"
    by (auto simp add: ruleStable_def ruleResolves_def dest: chainResolves_absent)
  ultimately show ?thesis by simp
next
  case False
  then obtain fs ms where fs: "filters r = map Some fs" and ms: "modifiers r = map Some ms"
    using chain_cases [of "filters r"] chain_cases [of "modifiers r"] by blast
  have c: "(if condition r = [] then RuleCondition_DEFAULT else condition r) = condition r
      \<longleftrightarrow> condition r \<noteq> []"
    using default_not_blank by auto
  show ?thesis
    unfolding rule_roundtrip_fields [OF fs ms] c
    by (simp add: ruleStable_def ruleResolves_def fs ms chainResolves_map
        anchorResolves_decoded [OF assms(1)] anchorResolves_decoded [OF assms(2)]
        conj_ac)
qed

lemma blank_condition_lost: "condition r = [] \<Longrightarrow> roundTripRule parse db r \<noteq> Inr r"
proof (cases "None \<in> set (filters r) \<or> None \<in> set (modifiers r)")
  case True
  then obtain e where "RuleDefn_toObj r = Inl e" using toObj_raises by blast
  then show ?thesis by (simp add: roundTripRule_def)
next
  case False
  assume blank: "condition r = []"
  from False obtain fs ms where fs: "filters r = map Some fs" and ms: "modifiers r = map Some ms"
    using chain_cases [of "filters r"] chain_cases [of "modifiers r"] by blast
  show ?thesis
    unfolding rule_roundtrip_fields [OF fs ms]
    using blank default_not_blank by simp
qed

lemma mapE_roundtrip_conv:
  "mapE f xs = Inr ys \<Longrightarrow> mapE g ys = Inr xs \<Longrightarrow> \<forall>x \<in> set xs. \<exists>y. f x = Inr y \<and> g y = Inr x"
proof (induction xs arbitrary: ys)
  case Nil
  then show ?case by simp
next
  case (Cons x xs)
  from Cons.prems(1) obtain y ys' where y: "f x = Inr y" and ys': "mapE f xs = Inr ys'"
    and ys: "ys = y # ys'"
    by (auto split: sum.splits)
  from Cons.prems(2) ys have g: "g y = Inr x" and gs: "mapE g ys' = Inr xs"
    by (auto split: sum.splits)
  from Cons.IH [OF ys' gs] y g show ?case by auto
qed

lemma page_roundtrip_conv:
  assumes "roundTripPage parse db p = Inr p"
  shows "\<forall>r \<in> set (rules p). roundTripRule parse db r = Inr r"
proof -
  from assms obtain R where R: "mapE RuleDefn_toObj (rules p) = Inr R"
    by (auto simp add: roundTripPage_def PageDefn_toObj_def split: sum.splits)
  show ?thesis
  proof (cases "R = []")
    case True
    with mapE_length [OF R] show ?thesis by simp
  next
    case False
    with assms R have "(case mapE (RuleDefn_FromObj parse db) R of
        Inl e \<Rightarrow> Inl e | Inr rules' \<Rightarrow> Inr (PageDefn_new\<lparr>rules := rules'\<rparr>)) = Inr p"
      by (simp add: roundTripPage_def PageDefn_toObj_def PageDefn_FromObj_def
          parseIfString_def deleteIf_def objProp_simps)
    then have "mapE (RuleDefn_FromObj parse db) R = Inr (rules p)"
      by (auto simp add: PageDefn_new_def split: sum.splits)
    from mapE_roundtrip_conv [OF R this] show ?thesis
      by (auto simp add: roundTripRule_def)
  qed
qed

lemma brain_roundtrip_conv:
  assumes "roundTripBrain parse db b = Inr b"
  shows "\<forall>p \<in> set (pages b). roundTripPage parse db p = Inr p"
proof -
  from assms obtain P where P: "mapE PageDefn_toObj (pages b) = Inr P"
    by (auto simp add: roundTripBrain_def BrainDefn_toObj_def split: sum.splits)
  with assms have "(case mapE (PageDefn_FromObj parse db) P of
      Inl e \<Rightarrow> Inl e | Inr pages' \<Rightarrow> Inr (BrainDefn_new\<lparr>pages := pages'\<rparr>)) = Inr b"
    by (simp add: roundTripBrain_def BrainDefn_toObj_def BrainDefn_FromObj_def
        parseIfString_def objProp_simps)
  then have "mapE (PageDefn_FromObj parse db) P = Inr (pages b)"
    by (auto simp add: BrainDefn_new_def split: sum.splits)
  from mapE_roundtrip_conv [OF P this] show ?thesis
    by (auto simp add: roundTripPage_def)
qed

lemma brainInDataModel_stable: "brainInDataModel db b \<Longrightarrow> brainStable db b"
  by (fastforce simp add: brainInDataModel_def brainStable_def pageStable_def ruleStable_def
      RuleCondition_values_def list_all_iff)

text \<open>
  Claim C1, as amended. Over the catalog of the source, decoding the encoding of a
  rule, page or brain returns the same rule, page or brain (the same condition,
  sensor, actuator, filter and modifier sequences of each rule, the same rules of each
  page, the same pages) exactly when it is stable: every tile reference is the entry
  of the catalog under its identifier, every chain element is present, and no
  condition is the empty string. In particular the round trip returns every brain
  whose tiles resolve and whose conditions are among the five values of
  \<open>RuleCondition\<close>. Over any catalog, a rule whose condition is the empty string does
  not come back from the round trip.
\<close>

theorem roundtrip_stable:
  "(roundTripRule parse kodu_tiles r = Inr r \<longleftrightarrow> ruleStable kodu_tiles r) \<and>
   (roundTripPage parse kodu_tiles p = Inr p \<longleftrightarrow> pageStable kodu_tiles p) \<and>
   (roundTripBrain parse kodu_tiles b = Inr b \<longleftrightarrow> brainStable kodu_tiles b) \<and>
   (brainInDataModel kodu_tiles b \<longrightarrow> roundTripBrain parse kodu_tiles b = Inr b) \<and>
   (condition r = [] \<longrightarrow> roundTripRule parse db r \<noteq> Inr r)"
proof -
  have rule: "roundTripRule parse kodu_tiles x = Inr x \<longleftrightarrow> ruleStable kodu_tiles x" for x
    using kodu_no_empty_key by (rule rule_roundtrip_iff)
  have page: "roundTripPage parse kodu_tiles x = Inr x \<longleftrightarrow> pageStable kodu_tiles x" for x
    using page_roundtrip [of x parse kodu_tiles] page_roundtrip_conv [of parse kodu_tiles x]
    by (auto simp add: pageStable_def list_all_iff rule)
  have brain: "roundTripBrain parse kodu_tiles x = Inr x \<longleftrightarrow> brainStable kodu_tiles x" for x
    using brain_roundtrip [of x parse kodu_tiles] brain_roundtrip_conv [of parse kodu_tiles x]
    by (auto simp add: brainStable_def list_all_iff page)
  from rule page brain brainInDataModel_stable [of kodu_tiles b] blank_condition_lost [of r parse db]
  show ?thesis by blast
qed

lemma exampleBrain_stable:
  "ruleStable kodu_tiles exampleRule"
  "pageStable kodu_tiles \<lparr>rules = [exampleRule, RuleDefn_new]\<rparr>"
  "brainStable kodu_tiles exampleBrain"
  "brainInDataModel kodu_tiles exampleBrain"
  "condition (exampleRule\<lparr>condition := []\<rparr>) = []"
  by code_simp+

theorem roundtrip_stable_witness:
  "ruleStable kodu_tiles exampleRule \<and>
   roundTripRule (\<lambda>s. None) kodu_tiles exampleRule = Inr exampleRule \<and>
   pageStable kodu_tiles \<lparr>rules = [exampleRule, RuleDefn_new]\<rparr> \<and>
   roundTripPage (\<lambda>s. None) kodu_tiles \<lparr>rules = [exampleRule, RuleDefn_new]\<rparr> =
     Inr \<lparr>rules = [exampleRule, RuleDefn_new]\<rparr> \<and>
   brainStable kodu_tiles exampleBrain \<and> brainInDataModel kodu_tiles exampleBrain \<and>
   roundTripBrain (\<lambda>s. None) kodu_tiles exampleBrain = Inr exampleBrain \<and>
   roundTripRule (\<lambda>s. None) kodu_tiles (exampleRule\<lparr>condition := []\<rparr>) \<noteq>
     Inr (exampleRule\<lparr>condition := []\<rparr>)"
proof -
  have blank: "roundTripRule (\<lambda>s. None) kodu_tiles (exampleRule\<lparr>condition := []\<rparr>) \<noteq>
      Inr (exampleRule\<lparr>condition := []\<rparr>)"
    using roundtrip_stable
      [of "\<lambda>s. None" "exampleRule\<lparr>condition := []\<rparr>"
        "\<lparr>rules = [exampleRule, RuleDefn_new]\<rparr>" exampleBrain kodu_tiles]
      exampleBrain_stable(5)
    by blast
  have ok: "roundTripRule (\<lambda>s. None) kodu_tiles exampleRule = Inr exampleRule"
    "roundTripPage (\<lambda>s. None) kodu_tiles \<lparr>rules = [exampleRule, RuleDefn_new]\<rparr> =
      Inr \<lparr>rules = [exampleRule, RuleDefn_new]\<rparr>"
    "roundTripBrain (\<lambda>s. None) kodu_tiles exampleBrain = Inr exampleBrain"
    using roundtrip_stable
      [of "\<lambda>s. None" exampleRule "\<lparr>rules = [exampleRule, RuleDefn_new]\<rparr>" exampleBrain
        kodu_tiles]
      exampleBrain_stable(1-4)
    by blast+
  from blank ok exampleBrain_stable(1-4) show ?thesis by blast
qed

lemma blankCondition_reached:
  "RuleDefn_FromObj (\<lambda>s. None) kodu_tiles
     (JObj [(''C'', JStr []), (''S'', JStr ''S2''), (''A'', JStr ''A2''),
            (''F'', JArr [JStr ''F1'']), (''M'', JArr [JStr ''M11''])]) =
     Inr (exampleRule\<lparr>condition := []\<rparr>)"
  by code_simp

lemma blankConditionBrain_decoded:
  "roundTripBrain (\<lambda>s. None) kodu_tiles blankConditionBrain =
     Inr \<lparr>pages = [\<lparr>rules = [exampleRule\<lparr>condition := ''RC0''\<rparr>]\<rparr>]\<rparr>"
  "brainResolves kodu_tiles blankConditionBrain"
  by code_simp+

lemma renamedTileBrain_decoded:
  "map_of (db_sensors kodu_tiles) (tid renamedSee) = Some sensor_see"
  "roundTripBrain (\<lambda>s. None) kodu_tiles renamedTileBrain =
     Inr \<lparr>pages = [\<lparr>rules = [RuleDefn_new\<lparr>sensor := Some sensor_see\<rparr>]\<rparr>]\<rparr>"
  by code_simp+

lemma renamedSee_differs: "sensor_see \<noteq> renamedSee"
proof
  assume "sensor_see = renamedSee"
  then have "name sensor_see = name renamedSee" by simp
  then show False by (simp add: renamedSee_def sensor_see_def mkTile_def)
qed

text \<open>
  Claim C1 as stated fails on two brains whose tile identifiers all exist in the
  catalog. The one rule of the first has the empty string for its condition, a rule
  that \<open>RuleDefn.FromObj\<close> itself returns for a record with \<open>C: ""\<close>: the encoding omits
  \<open>C\<close> and the decoded rule has the default condition. The sensor of the second has
  the identifier of the catalog's sensor "See" and another name: the decoded rule
  refers to the catalog's tile.
\<close>

theorem roundtrip_blank_condition:
  "RuleDefn_FromObj (\<lambda>s. None) kodu_tiles
     (JObj [(''C'', JStr []), (''S'', JStr ''S2''), (''A'', JStr ''A2''),
            (''F'', JArr [JStr ''F1'']), (''M'', JArr [JStr ''M11''])]) =
     Inr (exampleRule\<lparr>condition := []\<rparr>) \<and>
   brainResolves kodu_tiles blankConditionBrain \<and>
   roundTripBrain (\<lambda>s. None) kodu_tiles blankConditionBrain =
     Inr \<lparr>pages = [\<lparr>rules = [exampleRule\<lparr>condition := ''RC0''\<rparr>]\<rparr>]\<rparr> \<and>
   roundTripBrain (\<lambda>s. None) kodu_tiles blankConditionBrain \<noteq> Inr blankConditionBrain \<and>
   map_of (db_sensors kodu_tiles) (tid renamedSee) = Some sensor_see \<and>
   roundTripBrain (\<lambda>s. None) kodu_tiles renamedTileBrain =
     Inr \<lparr>pages = [\<lparr>rules = [RuleDefn_new\<lparr>sensor := Some sensor_see\<rparr>]\<rparr>]\<rparr> \<and>
   roundTripBrain (\<lambda>s. None) kodu_tiles renamedTileBrain \<noteq> Inr renamedTileBrain"
proof -
  have "\<lparr>pages = [\<lparr>rules = [exampleRule\<lparr>condition := ''RC0''\<rparr>]\<rparr>]\<rparr> \<noteq> blankConditionBrain"
    by (simp add: blankConditionBrain_def exampleRule_def)
  moreover have "\<lparr>pages = [\<lparr>rules = [RuleDefn_new\<lparr>sensor := Some sensor_see\<rparr>]\<rparr>]\<rparr> \<noteq>
      renamedTileBrain"
    using renamedSee_differs by (simp add: renamedTileBrain_def RuleDefn_new_def)
  ultimately show ?thesis
    by (simp add: blankCondition_reached blankConditionBrain_decoded renamedTileBrain_decoded)
qed

section \<open>The number of pages of a brain\<close>









end
